theory Spec2Isabelle
  imports Complex_Main "HOL-Library.Sublist"
begin

section \<open>JavaScript values\<close>

text \<open>
  The relay and the client-side aggregator work on untyped JavaScript values: the result of
  \<^verbatim>\<open>JSON.parse\<close> on a text frame, and binary values (\<^verbatim>\<open>ArrayBuffer\<close>,
  \<^verbatim>\<open>Uint8Array\<close>) that \<^verbatim>\<open>audioFromResponse\<close> also accepts.

  \<^item> A number is a rational: every finite JSON number literal denotes one. \<^verbatim>\<open>NaN\<close> cannot
    come out of \<^verbatim>\<open>JSON.parse\<close>, but a conversion can yield it; the result of a
    conversion is a \<open>number\<close>. Overflow to \<^verbatim>\<open>Infinity\<close> is outside the model.
  \<^item> A string is a list of 8-bit code units (ASCII and Latin-1).
  \<^item> An object is the list of its own properties in insertion order; \<^verbatim>\<open>JSON.parse\<close>
    gives each key once. No property of a parsed object is a function.
  \<^item> A \<^verbatim>\<open>Uint8Array\<close> is a view: the bytes of its underlying buffer, its byte offset and
    its length.
\<close>

type_synonym bytes = "nat list"

datatype js =
    JUndefined
  | JNull
  | JBool bool
  | JNum rat
  | JStr string
  | JArr "js list"
  | JObj "(string \<times> js) list"
  | JArrayBuffer bytes
  | JUint8Array bytes nat nat

text \<open>The result of a numeric conversion: a finite number or \<^verbatim>\<open>NaN\<close>.\<close>

datatype number = Finite rat | NaN

text \<open>
  An evaluation returns a value or throws. Every exception thrown by the conversions and
  the classifier functions below is a \<^verbatim>\<open>TypeError\<close>.
\<close>

datatype 'a attempt = Returns 'a | Throws

fun and_then :: "'a attempt \<Rightarrow> ('a \<Rightarrow> 'b attempt) \<Rightarrow> 'b attempt" where
  "and_then Throws f = Throws"
| "and_then (Returns x) f = f x"

text \<open>The evaluations of a list, from left to right: the first that throws ends them.\<close>

fun all_returned :: "'a attempt list \<Rightarrow> 'a list attempt" where
  "all_returned [] = Returns []"
| "all_returned (a # rest) =
     and_then a (\<lambda>x. and_then (all_returned rest) (\<lambda>xs. Returns (x # xs)))"

text \<open>
  The parts of the JavaScript runtime that the sources call and that are not modelled here
  are parameters of the model: number formatting, numeric parsing of strings, and the JSON
  codec. \<open>None\<close> from \<open>JSON_parse\<close> is a thrown \<^verbatim>\<open>SyntaxError\<close>.
\<close>

record runtime =
  NumberToString :: "rat \<Rightarrow> string"
  StringToNumber :: "string \<Rightarrow> number"
  JSON_parse :: "string \<Rightarrow> js option"
  JSON_stringify :: "js \<Rightarrow> string"

text \<open>Truthiness (\<^verbatim>\<open>!x\<close>, \<^verbatim>\<open>if (x)\<close>, \<^verbatim>\<open>Boolean\<close>).\<close>

fun truthy :: "js \<Rightarrow> bool" where
  "truthy JUndefined = False"
| "truthy JNull = False"
| "truthy (JBool b) = b"
| "truthy (JNum r) = (r \<noteq> 0)"
| "truthy (JStr s) = (s \<noteq> [])"
| "truthy (JArr xs) = True"
| "truthy (JObj kvs) = True"
| "truthy (JArrayBuffer b) = True"
| "truthy (JUint8Array buf off len) = True"

definition nullish :: "js \<Rightarrow> bool" where
  "nullish v = (v = JUndefined \<or> v = JNull)"

text \<open>\<^verbatim>\<open>a ?? b\<close> and \<^verbatim>\<open>a || b\<close>; the right operands in the sources have no effects.\<close>

definition coalesce :: "js \<Rightarrow> js \<Rightarrow> js" where
  "coalesce a b = (if nullish a then b else a)"

definition or_js :: "js \<Rightarrow> js \<Rightarrow> js" where
  "or_js a b = (if truthy a then a else b)"

text \<open>
  Property read \<^verbatim>\<open>o.k\<close> for the keys the sources use (none of them is a member of a
  built-in prototype): an own property of an object, \<^verbatim>\<open>undefined\<close> on every other value.
  The sources read a property only where the receiver is not \<^verbatim>\<open>null\<close> or
  \<^verbatim>\<open>undefined\<close>, or through \<^verbatim>\<open>?.\<close>, which is \<open>oget\<close>.
\<close>

fun get :: "js \<Rightarrow> string \<Rightarrow> js" where
  "get (JObj kvs) k = (case map_of kvs k of Some v \<Rightarrow> v | None \<Rightarrow> JUndefined)"
| "get v k = JUndefined"

definition oget :: "js \<Rightarrow> string \<Rightarrow> js" where
  "oget v k = (if nullish v then JUndefined else get v k)"

text \<open>Element read \<^verbatim>\<open>a[0]\<close> and its guarded form \<^verbatim>\<open>a?.[0]\<close>.\<close>

fun first_elem :: "js \<Rightarrow> js" where
  "first_elem (JArr xs) = (case xs of [] \<Rightarrow> JUndefined | x # _ \<Rightarrow> x)"
| "first_elem (JStr s) = (case s of [] \<Rightarrow> JUndefined | c # _ \<Rightarrow> JStr [c])"
| "first_elem (JObj kvs) = get (JObj kvs) ''0''"
| "first_elem (JUint8Array buf off len) =
     (if 0 < len \<and> off < length buf then JNum (of_nat (buf ! off)) else JUndefined)"
| "first_elem v = JUndefined"

definition ofirst :: "js \<Rightarrow> js" where
  "ofirst v = (if nullish v then JUndefined else first_elem v)"

fun is_string :: "js \<Rightarrow> bool" where
  "is_string (JStr s) = True"
| "is_string v = False"

subsection \<open>Strings\<close>

text \<open>
  \<^verbatim>\<open>toLowerCase\<close> on 8-bit code units: the letters A-Z and the Latin-1 capitals gain bit 5.
\<close>

definition lower_char :: "char \<Rightarrow> char" where
  "lower_char c =
     (let n = (of_char c :: nat) in
      if (65 \<le> n \<and> n \<le> 90) \<or> (192 \<le> n \<and> n \<le> 222 \<and> n \<noteq> 215)
      then (case c of Char b0 b1 b2 b3 b4 b5 b6 b7 \<Rightarrow> Char b0 b1 b2 b3 b4 True b6 b7)
      else c)"

definition toLowerCase :: "string \<Rightarrow> string" where
  "toLowerCase s = map lower_char s"

text \<open>\<^verbatim>\<open>Array.prototype.join\<close> on strings.\<close>

fun join_strs :: "string \<Rightarrow> string list \<Rightarrow> string" where
  "join_strs sep [] = []"
| "join_strs sep [x] = x"
| "join_strs sep (x # y # ys) = x @ sep @ join_strs sep (y # ys)"

text \<open>
  \<^verbatim>\<open>String(v)\<close>, and \<^verbatim>\<open>${v}\<close> in a template literal. On an object the conversion
  calls its \<^verbatim>\<open>toString\<close>, then its \<^verbatim>\<open>valueOf\<close>, and takes the first primitive
  result. An object with an own property \<^verbatim>\<open>toString\<close> has no callable
  \<^verbatim>\<open>toString\<close>, and its \<^verbatim>\<open>valueOf\<close> (its own, not callable, or the inherited
  one, which returns the object) gives no primitive: the conversion throws a
  \<^verbatim>\<open>TypeError\<close>. Every other object answers through \<^verbatim>\<open>Object.prototype.toString\<close>.
  An array converts its elements through \<^verbatim>\<open>join\<close>.
\<close>

definition has_own :: "(string \<times> js) list \<Rightarrow> string \<Rightarrow> bool" where
  "has_own kvs k = (map_of kvs k \<noteq> None)"

fun ToString :: "runtime \<Rightarrow> js \<Rightarrow> string attempt" where
  "ToString rt JUndefined = Returns ''undefined''"
| "ToString rt JNull = Returns ''null''"
| "ToString rt (JBool b) = Returns (if b then ''true'' else ''false'')"
| "ToString rt (JNum r) = Returns (NumberToString rt r)"
| "ToString rt (JStr s) = Returns s"
| "ToString rt (JArr xs) =
     and_then
       (all_returned
          (map (\<lambda>x. if x = JUndefined \<or> x = JNull then Returns [] else ToString rt x) xs))
       (\<lambda>parts. Returns (join_strs '','' parts))"
| "ToString rt (JObj kvs) =
     (if has_own kvs ''toString'' then Throws else Returns ''[object Object]'')"
| "ToString rt (JArrayBuffer b) = Returns ''[object ArrayBuffer]''"
| "ToString rt (JUint8Array buf off len) =
     Returns
       (join_strs '','' (map (\<lambda>n. NumberToString rt (of_nat n)) (take len (drop off buf))))"

text \<open>\<^verbatim>\<open>xs.join(sep)\<close> on an array of values.\<close>

definition join_js :: "runtime \<Rightarrow> string \<Rightarrow> js list \<Rightarrow> string attempt" where
  "join_js rt sep xs =
     and_then
       (all_returned
          (map (\<lambda>x. if x = JUndefined \<or> x = JNull then Returns [] else ToString rt x) xs))
       (\<lambda>parts. Returns (join_strs sep parts))"

text \<open>
  \<^verbatim>\<open>ToNumber\<close>, and the comparison \<^verbatim>\<open>v > 0\<close>, which is false on \<^verbatim>\<open>NaN\<close>. On an
  object the conversion calls \<^verbatim>\<open>valueOf\<close> first, then \<^verbatim>\<open>toString\<close>: it throws on
  the objects on which \<^verbatim>\<open>String\<close> throws, and \<^verbatim>\<open>[object Object]\<close> is not a number.
\<close>

fun ToNumber :: "runtime \<Rightarrow> js \<Rightarrow> number attempt" where
  "ToNumber rt JUndefined = Returns NaN"
| "ToNumber rt JNull = Returns (Finite 0)"
| "ToNumber rt (JBool b) = Returns (Finite (if b then 1 else 0))"
| "ToNumber rt (JNum r) = Returns (Finite r)"
| "ToNumber rt (JStr s) = Returns (StringToNumber rt s)"
| "ToNumber rt (JArr xs) =
     and_then (ToString rt (JArr xs)) (\<lambda>s. Returns (StringToNumber rt s))"
| "ToNumber rt (JObj kvs) = (if has_own kvs ''toString'' then Throws else Returns NaN)"
| "ToNumber rt (JArrayBuffer b) = Returns NaN"
| "ToNumber rt (JUint8Array buf off len) =
     and_then (ToString rt (JUint8Array buf off len)) (\<lambda>s. Returns (StringToNumber rt s))"

definition greater_than_zero :: "runtime \<Rightarrow> js \<Rightarrow> bool attempt" where
  "greater_than_zero rt v =
     and_then (ToNumber rt v) (\<lambda>n. Returns (case n of Finite r \<Rightarrow> 0 < r | NaN \<Rightarrow> False))"

section \<open>Message classifier\<close>

datatype speaker = user | user_waiting | model

text \<open>\<^verbatim>\<open>parseSpeaker\<close>; \<open>None\<close> is \<^verbatim>\<open>null\<close>.\<close>

definition parseSpeaker :: "runtime \<Rightarrow> js \<Rightarrow> speaker option attempt" where
  "parseSpeaker rt payload =
     (let spk =
        or_js (oget payload ''speaker'')
         (or_js (oget payload ''role'')
           (or_js (oget payload ''participant'')
             (or_js (oget (oget payload ''metadata'') ''speaker'')
               (oget payload ''source''))))
      in if \<not> truthy spk then Returns None
         else and_then (ToString rt spk) (\<lambda>s.
           let normalised = toLowerCase s in
           Returns
             (if normalised \<in> set [''user'', ''customer'', ''caller''] then Some user
              else if normalised
                        \<in> set [''assistant'', ''agent'', ''ai'', ''model'', ''bot'', ''system'']
              then Some model
              else None)))"

text \<open>
  \<^verbatim>\<open>extractTranscriptText\<close>. The declared result type is \<^verbatim>\<open>string | null\<close>, but the
  branch on \<^verbatim>\<open>alternative.transcript\<close> returns whatever truthy value stands there, so the
  result is a value; \<open>JNull\<close> is \<^verbatim>\<open>null\<close>.
\<close>

definition extractTranscriptText :: "runtime \<Rightarrow> js \<Rightarrow> js attempt" where
  "extractTranscriptText rt payload =
     (if \<not> truthy payload then Returns JNull
      else if is_string (get payload ''transcript'') then Returns (get payload ''transcript'')
      else if is_string (get payload ''text'') then Returns (get payload ''text'')
      else if is_string (get payload ''content'') then Returns (get payload ''content'')
      else
        let alternative =
          or_js (ofirst (oget (get payload ''channel'') ''alternatives''))
           (or_js (ofirst (get payload ''alternatives''))
             (ofirst (oget (get payload ''results'') ''alternatives'')))
        in if truthy (oget alternative ''transcript'')
           then Returns (get alternative ''transcript'')
           else (case get payload ''words'' of
                   JArr ws \<Rightarrow>
                     and_then
                       (join_js rt '' '' (filter truthy (map (\<lambda>w. oget w ''word'') ws)))
                       (\<lambda>s. Returns (JStr s))
                 | _ \<Rightarrow> Returns JNull))"

text \<open>
  \<^verbatim>\<open>isFinalTranscript\<close>. The confidence is read twice in the source, the second time
  without \<^verbatim>\<open>?.\<close> after the first read was truthy; both reads give the same value.
\<close>

definition alternative_confidence :: "js \<Rightarrow> js" where
  "alternative_confidence payload =
     oget (ofirst (oget (get payload ''channel'') ''alternatives'')) ''confidence''"

definition isFinalTranscript :: "runtime \<Rightarrow> js \<Rightarrow> bool attempt" where
  "isFinalTranscript rt payload =
     (if \<not> truthy payload then Returns False
      else if truthy (or_js (get payload ''is_final'') (get payload ''final'')) then Returns True
      else if get payload ''type'' = JStr ''final_transcript'' then Returns True
      else if truthy (alternative_confidence payload)
      then greater_than_zero rt (alternative_confidence payload)
      else Returns False)"

text \<open>\<^verbatim>\<open>extractResponses\<close>.\<close>

definition extractResponses :: "js \<Rightarrow> js list" where
  "extractResponses payload =
     (if \<not> truthy payload then []
      else case get payload ''responses'' of JArr xs \<Rightarrow> xs
      | _ \<Rightarrow> (case oget (get payload ''response'') ''outputs'' of JArr xs \<Rightarrow> xs
      | _ \<Rightarrow> (case get payload ''output'' of JArr xs \<Rightarrow> xs
      | _ \<Rightarrow> (case get payload ''outputs'' of JArr xs \<Rightarrow> xs
      | _ \<Rightarrow> (if truthy (get payload ''response'') then [get payload ''response''] else [])))))"

text \<open>\<^verbatim>\<open>textFromResponse\<close>; the result is a string or \<^verbatim>\<open>null\<close>.\<close>

definition textFromResponse :: "runtime \<Rightarrow> js \<Rightarrow> js attempt" where
  "textFromResponse rt response =
     (if \<not> truthy response then Returns JNull
      else if is_string (get response ''text'') then Returns (get response ''text'')
      else if is_string (get response ''content'') then Returns (get response ''content'')
      else if is_string (get response ''value'') then Returns (get response ''value'')
      else case get response ''messages'' of
        JArr items \<Rightarrow>
          and_then
            (join_js rt '' ''
               (filter truthy
                  (map (\<lambda>item. or_js (oget item ''content'') (oget item ''text'')) items)))
            (\<lambda>s. Returns (JStr s))
      | _ \<Rightarrow> (case get response ''texts'' of
          JArr ts \<Rightarrow> and_then (join_js rt '' '' (filter truthy ts)) (\<lambda>s. Returns (JStr s))
        | _ \<Rightarrow> Returns JNull))"

text \<open>\<^verbatim>\<open>responseIsComplete\<close>.\<close>

definition responseIsComplete :: "runtime \<Rightarrow> js \<Rightarrow> bool attempt" where
  "responseIsComplete rt response =
     (if \<not> truthy response then Returns False
      else if get response ''type'' = JStr ''completed'' \<or> get response ''type'' = JStr ''done''
      then Returns True
      else if truthy (get response ''status'')
      then and_then (ToString rt (get response ''status'')) (\<lambda>s.
             Returns (toLowerCase s \<in> set [''completed'', ''complete'', ''finished'', ''done'']))
      else if truthy (get response ''completion_reason'') then Returns True
      else if get response ''done'' = JBool True then Returns True
      else Returns False)"

section \<open>The relay (route handler)\<close>

text \<open>
  The environment variables of \<^verbatim>\<open>config\<close>: each is a string or \<^verbatim>\<open>undefined\<close>.
\<close>

record config =
  deepGramApiKey :: "string option"
  llmProvider :: "string option"
  llmApiKey :: "string option"
  llmModel :: "string option"

definition DEEPGRAM_AGENT_URL :: string where
  "DEEPGRAM_AGENT_URL = ''wss://agent.deepgram.com/v1/listen''"

text \<open>
  The table \<^verbatim>\<open>BYO_DEFAULT_MODELS\<close>, by its own properties. (A lookup in the object literal
  also finds the inherited members \<^verbatim>\<open>constructor\<close> and \<^verbatim>\<open>__proto__\<close>; the theorem on
  the injected model leaves these two provider names out.)
\<close>

definition BYO_DEFAULT_MODELS :: "string \<Rightarrow> string option" where
  "BYO_DEFAULT_MODELS =
     map_of [(''openai'', ''gpt-4o-mini''), (''claude'', ''claude-3-haiku-20240307'')]"

text \<open>A string or \<^verbatim>\<open>undefined\<close> as a condition: \<^verbatim>\<open>undefined\<close> and the empty string are falsy.\<close>

fun present :: "string option \<Rightarrow> bool" where
  "present None = False"
| "present (Some s) = (s \<noteq> [])"

text \<open>
  The session's constants \<^verbatim>\<open>llmProvider\<close>, \<^verbatim>\<open>llmModel\<close> and
  \<^verbatim>\<open>shouldInjectExternalLlm\<close>, computed once per request in \<^verbatim>\<open>GET\<close>.
\<close>

definition session_llmProvider :: "config \<Rightarrow> string option" where
  "session_llmProvider cfg = map_option toLowerCase (llmProvider cfg)"

definition session_llmModel :: "config \<Rightarrow> string option" where
  "session_llmModel cfg =
     (if present (llmModel cfg) then llmModel cfg
      else case session_llmProvider cfg of
        None \<Rightarrow> None
      | Some p \<Rightarrow> if p \<noteq> [] then BYO_DEFAULT_MODELS p else None)"

definition shouldInjectExternalLlm :: "config \<Rightarrow> bool" where
  "shouldInjectExternalLlm cfg = (present (session_llmProvider cfg) \<and> present (llmApiKey cfg))"

text \<open>A string or \<^verbatim>\<open>undefined\<close> as a value.\<close>

fun js_of :: "string option \<Rightarrow> js" where
  "js_of None = JUndefined"
| "js_of (Some s) = JStr s"

subsection \<open>Object literals and assignment\<close>

text \<open>
  \<^verbatim>\<open>o[k] = v\<close> on the property list of an object: an existing key keeps its place, a new
  key goes last.
\<close>

fun put :: "(string \<times> js) list \<Rightarrow> string \<Rightarrow> js \<Rightarrow> (string \<times> js) list" where
  "put [] k v = [(k, v)]"
| "put ((k', v') # kvs) k v = (if k' = k then (k, v) # kvs else (k', v') # put kvs k v)"

definition set_prop :: "js \<Rightarrow> string \<Rightarrow> js \<Rightarrow> js" where
  "set_prop obj k v = (case obj of JObj kvs \<Rightarrow> JObj (put kvs k v) | _ \<Rightarrow> obj)"

text \<open>Decimal index keys, for the spread of a string or an array.\<close>

fun dec :: "nat \<Rightarrow> string" where
  "dec n = (if n < 10 then [''0123456789'' ! n] else dec (n div 10) @ [''0123456789'' ! (n mod 10)])"

text \<open>
  \<^verbatim>\<open>{...v}\<close>: the own enumerable properties of \<open>v\<close>. An object gives its properties, an
  array and a string their indexed elements, every other value nothing.
\<close>

fun spread :: "js \<Rightarrow> (string \<times> js) list" where
  "spread (JObj kvs) = kvs"
| "spread (JArr xs) = zip (map dec [0..<length xs]) xs"
| "spread (JStr s) = zip (map dec [0..<length s]) (map (\<lambda>c. JStr [c]) s)"
| "spread (JUint8Array buf off len) =
     zip (map dec [0..<len]) (map (\<lambda>n. JNum (of_nat n)) (take len (drop off buf)))"
| "spread v = []"

subsection \<open>The outbound rewriter\<close>

text \<open>\<^verbatim>\<open>thinkConfig\<close>: the \<^verbatim>\<open>model\<close> key is there only when a model is known.\<close>

definition thinkConfig :: "config \<Rightarrow> js" where
  "thinkConfig cfg =
     JObj [(''provider'',
            JObj ((''type'', js_of (session_llmProvider cfg)) #
                  (if present (session_llmModel cfg)
                   then [(''model'', js_of (session_llmModel cfg))] else []))),
           (''auth'',
            JObj [(''type'', JStr ''api_key''), (''value'', js_of (llmApiKey cfg))])]"

text \<open>
  The value that \<^verbatim>\<open>injectExternalThinkSettings\<close> builds from the parsed message and hands
  to \<^verbatim>\<open>JSON.stringify\<close>.
\<close>

definition rewritten :: "config \<Rightarrow> js \<Rightarrow> js" where
  "rewritten cfg parsed =
     (let agent = coalesce (get parsed ''agent'') (JObj []);
          existingInstructions = get agent ''instructions''
      in set_prop parsed ''agent''
           (JObj (put (put (spread agent) ''instructions'' existingInstructions)
                    ''think'' (thinkConfig cfg))))"

text \<open>
  \<^verbatim>\<open>injectExternalThinkSettings\<close>; \<open>None\<close> is \<^verbatim>\<open>null\<close>. The \<^verbatim>\<open>try\<close> block catches the
  \<^verbatim>\<open>SyntaxError\<close> of \<^verbatim>\<open>JSON.parse\<close> and the \<^verbatim>\<open>TypeError\<close> of calling
  \<^verbatim>\<open>toLowerCase\<close> on a \<^verbatim>\<open>type\<close> that is not a string; both return \<^verbatim>\<open>null\<close>.
\<close>

definition injectExternalThinkSettings :: "runtime \<Rightarrow> config \<Rightarrow> string \<Rightarrow> string option" where
  "injectExternalThinkSettings rt cfg message =
     (if \<not> shouldInjectExternalLlm cfg then None
      else case JSON_parse rt message of
        None \<Rightarrow> None
      | Some parsed \<Rightarrow>
          (case coalesce (oget parsed ''type'') (JStr []) of
             JStr t \<Rightarrow>
               if toLowerCase t \<noteq> ''agent-request'' then None
               else Some (JSON_stringify rt (rewritten cfg parsed))
           | _ \<Rightarrow> None))"

subsection \<open>Client to upstream forwarding\<close>

datatype ready_state = CONNECTING | OPEN | CLOSING | CLOSED

datatype frame = TextFrame string | BinaryFrame bytes

text \<open>
  What the listener on the client-facing socket does with one frame: nothing (the frame is
  dropped with a log line), or one call of \<^verbatim>\<open>deepgramSocket.send\<close>.
\<close>

datatype forwarding = Dropped | Sent frame

definition client_message_listener ::
  "runtime \<Rightarrow> config \<Rightarrow> ready_state \<Rightarrow> frame \<Rightarrow> forwarding" where
  "client_message_listener rt cfg deepgram_readyState data =
     (if deepgram_readyState \<noteq> OPEN then Dropped
      else case data of
        TextFrame s \<Rightarrow>
          (if shouldInjectExternalLlm cfg
           then (case injectExternalThinkSettings rt cfg s of
                   Some mutated \<Rightarrow> if mutated \<noteq> [] then Sent (TextFrame mutated) else Sent data
                 | None \<Rightarrow> Sent data)
           else Sent data)
      | BinaryFrame b \<Rightarrow> Sent data)"

subsection \<open>The upgrade endpoint\<close>

text \<open>
  Where \<^verbatim>\<open>WebSocketPair\<close> comes from: the global object, the module
  \<^verbatim>\<open>node:stream/web\<close>, a module without it (then \<^verbatim>\<open>new\<close> throws), or a failing import.
\<close>

datatype pair_source = global_pair | module_pair | module_without_pair | import_fails

datatype socket_effect =
    NewWebSocketPair
  | NewWebSocket string "string list"
  | AcceptClient

datatype outcome =
    JsonResponse nat js
  | SwitchingProtocols
  | UncaughtTypeError

text \<open>
  \<^verbatim>\<open>GET\<close>, from the request's \<^verbatim>\<open>upgrade\<close> header (\<open>None\<close> when the header is absent):
  the response and the sockets created on the way, in order. Log lines are left out, and
  the socket constructors are taken to succeed.
\<close>

definition GET :: "config \<Rightarrow> pair_source \<Rightarrow> string option \<Rightarrow> outcome \<times> socket_effect list" where
  "GET cfg pairs upgrade =
     (if \<not> present (deepGramApiKey cfg)
      then (JsonResponse 500 (JObj [(''error'', JStr ''Deepgram API key is not configured.'')]), [])
      else if map_option toLowerCase upgrade \<noteq> Some ''websocket''
      then (JsonResponse 400 (JObj [(''error'', JStr ''Expected a WebSocket upgrade request.'')]), [])
      else case pairs of
        import_fails \<Rightarrow>
          (JsonResponse 500
             (JObj [(''error'', JStr ''WebSocketPair is not supported in this environment.'')]), [])
      | module_without_pair \<Rightarrow> (UncaughtTypeError, [])
      | _ \<Rightarrow>
          (SwitchingProtocols,
           [NewWebSocketPair,
            NewWebSocket DEEPGRAM_AGENT_URL
              [''bearer'', (case deepGramApiKey cfg of Some apiKey \<Rightarrow> apiKey | None \<Rightarrow> [])],
            AcceptClient]))"

section \<open>Audio payloads\<close>

text \<open>
  The class \<^verbatim>\<open>\s\<close> of the regular expressions, on 8-bit code units, and the ASCII
  whitespace that \<^verbatim>\<open>atob\<close> skips.
\<close>

definition is_space :: "char \<Rightarrow> bool" where
  "is_space c = ((of_char c :: nat) \<in> set [9, 10, 11, 12, 13, 32, 160])"

definition ascii_whitespace :: "char \<Rightarrow> bool" where
  "ascii_whitespace c = ((of_char c :: nat) \<in> set [9, 10, 12, 13, 32])"

text \<open>
  \<^verbatim>\<open>atob\<close>, the forgiving base64 decoder of the platform: whitespace is skipped, one or
  two closing \<^verbatim>\<open>=\<close> are dropped when the length is a multiple of four, a length of
  one modulo four or a character outside the alphabet is an \<^verbatim>\<open>InvalidCharacterError\<close>
  (\<open>None\<close>), and the bits left over after the last whole byte are dropped. The result is the
  list of the code units of the binary string.
\<close>

definition base64_alphabet :: string where
  "base64_alphabet = ''ABCDEFGHIJKLMNOPQRSTUVWXYZabcdefghijklmnopqrstuvwxyz0123456789+/''"

fun index_of :: "'a \<Rightarrow> 'a list \<Rightarrow> nat option" where
  "index_of x [] = None"
| "index_of x (y # ys) = (if x = y then Some 0 else map_option Suc (index_of x ys))"

definition base64_value :: "char \<Rightarrow> nat option" where
  "base64_value c = index_of c base64_alphabet"

fun decode_sextets :: "nat list \<Rightarrow> bytes" where
  "decode_sextets (a # b # c # d # rest) =
     [a * 4 + b div 16, (b mod 16) * 16 + c div 4, (c mod 4) * 64 + d] @ decode_sextets rest"
| "decode_sextets [a, b, c] = [a * 4 + b div 16, (b mod 16) * 16 + c div 4]"
| "decode_sextets [a, b] = [a * 4 + b div 16]"
| "decode_sextets rest = []"

definition strip_padding :: "string \<Rightarrow> string" where
  "strip_padding d =
     (if length d mod 4 = 0 then
        (if 2 \<le> length d \<and> drop (length d - 2) d = ''=='' then take (length d - 2) d
         else if 1 \<le> length d \<and> drop (length d - 1) d = ''='' then take (length d - 1) d
         else d)
      else d)"

definition atob :: "string \<Rightarrow> bytes option" where
  "atob data =
     (let d = strip_padding (filter (\<lambda>c. \<not> ascii_whitespace c) data) in
      if length d mod 4 = 1 then None
      else if list_ex (\<lambda>c. base64_value c = None) d then None
      else Some (decode_sextets (map (\<lambda>c. the (base64_value c)) d)))"

text \<open>
  The standard base64 encoding with padding (what \<^verbatim>\<open>btoa\<close> produces): the encoding in
  which a base64 string carries a byte sequence.
\<close>

definition base64_char :: "nat \<Rightarrow> char" where
  "base64_char n = base64_alphabet ! n"

fun base64_encode :: "bytes \<Rightarrow> string" where
  "base64_encode [] = []"
| "base64_encode [a] =
     [base64_char (a div 4), base64_char ((a mod 4) * 16), CHR ''='', CHR ''='']"
| "base64_encode [a, b] =
     [base64_char (a div 4), base64_char ((a mod 4) * 16 + b div 16),
      base64_char ((b mod 16) * 4), CHR ''='']"
| "base64_encode (a # b # c # rest) =
     [base64_char (a div 4), base64_char ((a mod 4) * 16 + b div 16),
      base64_char ((b mod 16) * 4 + c div 64), base64_char (c mod 64)] @ base64_encode rest"


text \<open>The same encoding in two parts: the six-bit values, and the padding.\<close>

fun sextets :: "bytes \<Rightarrow> nat list" where
  "sextets [] = []"
| "sextets [a] = [a div 4, (a mod 4) * 16]"
| "sextets [a, b] = [a div 4, (a mod 4) * 16 + b div 16, (b mod 16) * 4]"
| "sextets (a # b # c # rest) =
     [a div 4, (a mod 4) * 16 + b div 16, (b mod 16) * 4 + c div 64, c mod 64] @ sextets rest"

fun padding :: "bytes \<Rightarrow> string" where
  "padding [] = []"
| "padding [a] = ''==''"
| "padding [a, b] = ''=''"
| "padding (a # b # c # rest) = padding rest"

text \<open>
  \<^verbatim>\<open>decodeBase64\<close>: the loop stores each code unit of the binary string into a
  \<^verbatim>\<open>Uint8Array\<close>, which keeps it modulo 256. The \<^verbatim>\<open>catch\<close> turns the error of
  \<^verbatim>\<open>atob\<close> into \<^verbatim>\<open>null\<close>.
\<close>

definition decodeBase64 :: "string \<Rightarrow> js" where
  "decodeBase64 v =
     (case atob (filter (\<lambda>c. \<not> is_space c) v) of
        None \<Rightarrow> JNull
      | Some binary \<Rightarrow> JArrayBuffer (map (\<lambda>code. code mod 256) binary))"

text \<open>
  \<^verbatim>\<open>new Uint8Array(xs)\<close> on an array: each element goes through \<^verbatim>\<open>ToNumber\<close> and is
  stored truncated towards zero, modulo 256; \<^verbatim>\<open>NaN\<close> is stored as 0.
\<close>

definition ToUint8 :: "number \<Rightarrow> nat" where
  "ToUint8 x =
     (case x of
        NaN \<Rightarrow> 0
      | Finite r \<Rightarrow> nat ((if 0 \<le> r then \<lfloor>r\<rfloor> else \<lceil>r\<rceil>) mod 256))"

definition new_Uint8Array :: "runtime \<Rightarrow> js list \<Rightarrow> bytes attempt" where
  "new_Uint8Array rt xs =
     and_then (all_returned (map (ToNumber rt) xs)) (\<lambda>ns. Returns (map ToUint8 ns))"

text \<open>
  \<^verbatim>\<open>audioFromResponse\<close>; the result is an \<^verbatim>\<open>ArrayBuffer\<close> or \<^verbatim>\<open>null\<close>.
  \<open>audio_slot\<close> is the local \<^verbatim>\<open>audio\<close>. The \<^verbatim>\<open>buffer\<close> of a
  \<^verbatim>\<open>Uint8Array\<close> is its whole underlying buffer.
\<close>

definition audio_slot :: "js \<Rightarrow> js" where
  "audio_slot response =
     coalesce (get response ''audio'')
      (coalesce (get response ''data'')
        (coalesce (oget (get response ''payload'') ''audio'')
          (coalesce (oget (get response ''payload'') ''data'')
            (get response ''value''))))"

definition audioFromResponse :: "runtime \<Rightarrow> js \<Rightarrow> js attempt" where
  "audioFromResponse rt response =
     (if \<not> truthy response then Returns JNull
      else let audio = audio_slot response in
        if \<not> truthy audio then Returns JNull
        else case audio of
          JArrayBuffer b \<Rightarrow> Returns audio
        | JUint8Array buf off len \<Rightarrow> Returns (JArrayBuffer buf)
        | JStr s \<Rightarrow> Returns (decodeBase64 s)
        | JArr xs \<Rightarrow> and_then (new_Uint8Array rt xs) (\<lambda>b. Returns (JArrayBuffer b))
        | _ \<Rightarrow>
            if get audio ''type'' = JStr ''Buffer''
            then (case get audio ''data'' of
                    JArr xs \<Rightarrow> and_then (new_Uint8Array rt xs) (\<lambda>b. Returns (JArrayBuffer b))
                  | _ \<Rightarrow> Returns JNull)
            else Returns JNull)"

text \<open>
  The four encodings in which a sub-object carries the byte sequence \<open>b\<close>: raw (an
  \<^verbatim>\<open>ArrayBuffer\<close>, or a \<^verbatim>\<open>Uint8Array\<close> over the whole of its buffer), a base64
  string, an array of the byte values, and the wrapped \<^verbatim>\<open>{type: "Buffer", data: [...]}\<close>.
\<close>

definition byte_array :: "bytes \<Rightarrow> js" where
  "byte_array b = JArr (map (\<lambda>n. JNum (of_nat n)) b)"

definition audio_encodings :: "bytes \<Rightarrow> js list" where
  "audio_encodings b =
     [JArrayBuffer b,
      JUint8Array b 0 (length b),
      JStr (base64_encode b),
      byte_array b,
      JObj [(''type'', JStr ''Buffer''), (''data'', byte_array b)]]"

section \<open>Conversation aggregator\<close>

subsection \<open>Text\<close>

text \<open>\<^verbatim>\<open>s.includes(t)\<close> on strings.\<close>

fun str_includes :: "string \<Rightarrow> string \<Rightarrow> bool" where
  "str_includes [] t = (t = [])"
| "str_includes (c # cs) t = (prefix t (c # cs) \<or> str_includes cs t)"

text \<open>\<^verbatim>\<open>s.replace(/\s+/g, " ")\<close>: each maximal run of whitespace becomes one space.\<close>

function collapse_ws :: "string \<Rightarrow> string" where
  "collapse_ws [] = []"
| "collapse_ws (c # cs) =
     (if is_space c then CHR '' '' # collapse_ws (dropWhile is_space cs)
      else c # collapse_ws cs)"
  by pat_completeness auto
termination
  by (relation "measure length") (auto simp: length_dropWhile_le less_Suc_eq_le)

text \<open>\<^verbatim>\<open>s.trim()\<close>.\<close>

definition trim :: "string \<Rightarrow> string" where
  "trim s = rev (dropWhile is_space (rev (dropWhile is_space s)))"

subsection \<open>State\<close>

datatype role = Role_user | Role_model

text \<open>
  \<^verbatim>\<open>Message\<close>. The content is declared a string, but \<^verbatim>\<open>extractTranscriptText\<close> can
  hand over any truthy value, so it is a value here.
\<close>

record message =
  msg_id :: string
  msg_role :: role
  msg_content :: js
  msg_audio :: "bytes option"
  msg_voice :: "string option"

text \<open>
  The values the provider reads from outside: the identifier built from \<^verbatim>\<open>Date.now()\<close>
  and \<^verbatim>\<open>Math.random()\<close>, and \<^verbatim>\<open>audioContext.currentTime\<close>. The \<open>k\<close>-th read gives
  the \<open>k\<close>-th value.
\<close>

record environment =
  new_id :: "nat \<Rightarrow> string"
  currentTime :: "nat \<Rightarrow> rat"

text \<open>
  The state and the refs of \<^verbatim>\<open>WebSocketProvider\<close> that the message handlers use. A
  scheduled source is its start time and its number of samples. \<open>ids_drawn\<close> and
  \<open>clock_reads\<close> count the reads of the environment. State updates are applied in the
  order in which the handlers issue them.
\<close>

record client_state =
  connection :: bool
  voice :: string
  currentSpeaker :: "speaker option"
  microphoneOpen :: bool
  chatMessages :: "message list"
  audioContextRef :: bool
  scheduledAudioSourcesRef :: "(rat \<times> nat) list"
  scheduledStartRef :: rat
  incomingMessageRef :: "message option"
  ids_drawn :: nat
  clock_reads :: nat

text \<open>
  A handler runs to its end, or an exception leaves it (a \<^verbatim>\<open>TypeError\<close> from a
  conversion, a \<^verbatim>\<open>RangeError\<close> from playback); either way the state reached stays.
\<close>

datatype result = Done client_state | Threw client_state

fun state_of :: "result \<Rightarrow> client_state" where
  "state_of (Done st) = st"
| "state_of (Threw st) = st"

text \<open>Statements in sequence: what follows an exception does not run.\<close>

fun and_next :: "result \<Rightarrow> (client_state \<Rightarrow> result) \<Rightarrow> result" where
  "and_next (Threw st) f = Threw st"
| "and_next (Done st) f = f st"

definition OUTPUT_SAMPLE_RATE :: rat where
  "OUTPUT_SAMPLE_RATE = 24000"

subsection \<open>The open model message\<close>

definition ensureIncomingMessage :: "environment \<Rightarrow> client_state \<Rightarrow> client_state" where
  "ensureIncomingMessage env st =
     (case incomingMessageRef st of
        Some current \<Rightarrow> st
      | None \<Rightarrow>
          let message = \<lparr> msg_id = new_id env (ids_drawn st), msg_role = Role_model,
                            msg_content = JStr [], msg_audio = None,
                            msg_voice = Some (voice st) \<rparr>
          in st \<lparr> incomingMessageRef := Some message,
                  chatMessages := chatMessages st @ [message],
                  ids_drawn := Suc (ids_drawn st) \<rparr>)"

text \<open>
  \<^verbatim>\<open>updateIncomingMessage\<close>; the partial message \<^verbatim>\<open>updates\<close> is the function that
  writes its fields.
\<close>

definition updateIncomingMessage ::
  "environment \<Rightarrow> (message \<Rightarrow> message) \<Rightarrow> client_state \<Rightarrow> client_state" where
  "updateIncomingMessage env updates st =
     (let st1 = (if incomingMessageRef st = None then ensureIncomingMessage env st else st) in
      case incomingMessageRef st1 of
        None \<Rightarrow> st1
      | Some current \<Rightarrow>
          let updated = updates current in
          st1 \<lparr> incomingMessageRef := Some updated,
                 chatMessages :=
                   map (\<lambda>item. if msg_id item = msg_id updated then updated else item)
                     (chatMessages st1) \<rparr>)"

text \<open>
  \<^verbatim>\<open>finalizeIncomingMessage\<close>. The list update reads the ref when it runs; here it runs
  when it is issued, before the ref is cleared. (Run after the ref is cleared it matches no
  item and changes nothing; under the invariant below it changes nothing here either, see
  \<open>finalize_chat\<close>.)
\<close>

definition finalizeIncomingMessage :: "client_state \<Rightarrow> client_state" where
  "finalizeIncomingMessage st =
     (case incomingMessageRef st of
        None \<Rightarrow> st
      | Some current \<Rightarrow>
          st \<lparr> chatMessages :=
                  map (\<lambda>item. if msg_id item = msg_id current then current else item)
                    (chatMessages st),
                incomingMessageRef := None,
                currentSpeaker := Some user_waiting \<rparr>)"

subsection \<open>Playback schedule\<close>

definition clearScheduledAudio :: "client_state \<Rightarrow> client_state" where
  "clearScheduledAudio st = st \<lparr> scheduledAudioSourcesRef := [], scheduledStartRef := 0 \<rparr>"

text \<open>
  \<^verbatim>\<open>playAudio\<close>. \<^verbatim>\<open>new Int16Array(audioData)\<close> throws a \<^verbatim>\<open>RangeError\<close> on a buffer
  of odd length.
\<close>

definition playAudio :: "environment \<Rightarrow> bytes \<Rightarrow> client_state \<Rightarrow> result" where
  "playAudio env audioData st =
     (if \<not> audioContextRef st then Done st
      else if odd (length audioData) then Threw st
      else let samples = length audioData div 2 in
        if samples = 0 then Done st
        else
          let now = currentTime env (clock_reads st);
              startTime = (if scheduledStartRef st < now then now else scheduledStartRef st)
          in Done (st \<lparr> scheduledStartRef := startTime + of_nat samples / OUTPUT_SAMPLE_RATE,
                         scheduledAudioSourcesRef :=
                           scheduledAudioSourcesRef st @ [(startTime, samples)],
                         clock_reads := Suc (clock_reads st) \<rparr>))"

subsection \<open>Handlers\<close>

text \<open>The template literal \<^verbatim>\<open>`${existing} ${text}`\<close>: it converts its parts from left to right.\<close>

definition template_literal :: "runtime \<Rightarrow> js \<Rightarrow> js \<Rightarrow> string attempt" where
  "template_literal rt existing txt =
     and_then (ToString rt existing) (\<lambda>e.
       and_then (ToString rt txt) (\<lambda>t. Returns (e @ '' '' @ t)))"

text \<open>
  \<^verbatim>\<open>handleTranscriptMessage\<close>. The three classifier calls come before every state
  change; the template literal is evaluated after \<^verbatim>\<open>ensureIncomingMessage\<close>.
\<close>

definition handleTranscriptMessage ::
  "runtime \<Rightarrow> environment \<Rightarrow> js \<Rightarrow> client_state \<Rightarrow> result" where
  "handleTranscriptMessage rt env payload st =
     (case extractTranscriptText rt payload of
        Throws \<Rightarrow> Threw st
      | Returns txt \<Rightarrow>
          if \<not> truthy txt then Done st
          else case parseSpeaker rt payload of
            Throws \<Rightarrow> Threw st
          | Returns parsed \<Rightarrow>
              (case isFinalTranscript rt payload of
                 Throws \<Rightarrow> Threw st
               | Returns isFinal \<Rightarrow>
                   let spk = (case parsed of None \<Rightarrow> user | Some s \<Rightarrow> s) in
                   if spk = user \<and> isFinal then
                     let st1 = clearScheduledAudio (st \<lparr> currentSpeaker := Some user \<rparr>) in
                     Done (st1 \<lparr> incomingMessageRef := None,
                                 chatMessages :=
                                   chatMessages st1 @
                                     [\<lparr> msg_id = new_id env (ids_drawn st1), msg_role = Role_user,
                                        msg_content = txt, msg_audio = None,
                                        msg_voice = None \<rparr>],
                                 ids_drawn := Suc (ids_drawn st1) \<rparr>)
                   else if spk = model then
                     let st1 = ensureIncomingMessage env st;
                         existing = (case incomingMessageRef st1 of
                                       None \<Rightarrow> JStr []
                                     | Some current \<Rightarrow> coalesce (msg_content current) (JStr []))
                     in if truthy existing
                        then (case template_literal rt existing txt of
                                Throws \<Rightarrow> Threw st1
                              | Returns joined \<Rightarrow>
                                  Done (updateIncomingMessage env
                                          (\<lambda>m. m \<lparr> msg_content :=
                                                     JStr (trim (collapse_ws joined)) \<rparr>)
                                          st1))
                        else Done (updateIncomingMessage env (\<lambda>m. m \<lparr> msg_content := txt \<rparr>) st1)
                   else Done st))"

text \<open>The text part and the audio part of the loop body of \<^verbatim>\<open>handleAgentResponse\<close>.\<close>

definition append_response_text ::
  "runtime \<Rightarrow> environment \<Rightarrow> js \<Rightarrow> client_state \<Rightarrow> result" where
  "append_response_text rt env txt st =
     (let st1 = ensureIncomingMessage env (st \<lparr> currentSpeaker := Some model \<rparr>);
          existing = (case incomingMessageRef st1 of
                        None \<Rightarrow> JUndefined
                      | Some current \<Rightarrow> msg_content current)
      in if truthy existing
         then (case template_literal rt existing txt of
                 Throws \<Rightarrow> Threw st1
               | Returns joined \<Rightarrow>
                   Done (updateIncomingMessage env
                           (\<lambda>m. m \<lparr> msg_content := JStr (trim joined) \<rparr>) st1))
         else Done (updateIncomingMessage env (\<lambda>m. m \<lparr> msg_content := txt \<rparr>) st1))"

definition append_response_audio :: "environment \<Rightarrow> bytes \<Rightarrow> client_state \<Rightarrow> result" where
  "append_response_audio env audioBuffer st =
     (let st1 = ensureIncomingMessage env (st \<lparr> currentSpeaker := Some model \<rparr>);
          combinedAudio =
            (case incomingMessageRef st1 of
               None \<Rightarrow> audioBuffer
             | Some incoming \<Rightarrow>
                 (case msg_audio incoming of
                    None \<Rightarrow> audioBuffer
                  | Some audio \<Rightarrow> audio @ audioBuffer))
      in playAudio env audioBuffer
           (updateIncomingMessage env (\<lambda>m. m \<lparr> msg_audio := Some combinedAudio \<rparr>) st1))"

text \<open>
  The body of \<^verbatim>\<open>responses.forEach\<close> for one sub-object: the text block, the audio
  block, then the completion check.
\<close>

definition responseType :: "runtime \<Rightarrow> js \<Rightarrow> string attempt" where
  "responseType rt response =
     and_then
       (ToString rt
          (coalesce (get response ''type'') (coalesce (get response ''kind'') (JStr []))))
       (\<lambda>s. Returns (toLowerCase s))"

definition response_text_step ::
  "runtime \<Rightarrow> environment \<Rightarrow> js \<Rightarrow> client_state \<Rightarrow> result" where
  "response_text_step rt env response st =
     (case responseType rt response of
        Throws \<Rightarrow> Threw st
      | Returns ty \<Rightarrow>
          if str_includes ty ''text'' \<or> ty = ''message''
          then (case textFromResponse rt response of
                  Throws \<Rightarrow> Threw st
                | Returns txt \<Rightarrow>
                    if truthy txt then append_response_text rt env txt st else Done st)
          else Done st)"

definition response_audio_step ::
  "runtime \<Rightarrow> environment \<Rightarrow> js \<Rightarrow> client_state \<Rightarrow> result" where
  "response_audio_step rt env response st =
     (case audioFromResponse rt response of
        Throws \<Rightarrow> Threw st
      | Returns (JArrayBuffer audioBuffer) \<Rightarrow> append_response_audio env audioBuffer st
      | Returns _ \<Rightarrow> Done st)"

text \<open>
  \<^verbatim>\<open>if (responseIsComplete(v)) { finalizeIncomingMessage(); }\<close>, on a sub-object and on
  the payload.
\<close>

definition completion_step :: "runtime \<Rightarrow> js \<Rightarrow> client_state \<Rightarrow> result" where
  "completion_step rt v st =
     (case responseIsComplete rt v of
        Throws \<Rightarrow> Threw st
      | Returns isComplete \<Rightarrow> Done (if isComplete then finalizeIncomingMessage st else st))"

definition handle_response ::
  "runtime \<Rightarrow> environment \<Rightarrow> js \<Rightarrow> client_state \<Rightarrow> result" where
  "handle_response rt env response st =
     (if \<not> truthy response then Done st
      else and_next (response_text_step rt env response st) (\<lambda>st1.
           and_next (response_audio_step rt env response st1) (\<lambda>st2.
           completion_step rt response st2)))"

text \<open>\<^verbatim>\<open>forEach\<close>: an exception ends the loop.\<close>

fun forEach_response ::
  "runtime \<Rightarrow> environment \<Rightarrow> js list \<Rightarrow> client_state \<Rightarrow> result" where
  "forEach_response rt env [] st = Done st"
| "forEach_response rt env (response # rest) st =
     and_next (handle_response rt env response st) (forEach_response rt env rest)"

definition handleAgentResponse ::
  "runtime \<Rightarrow> environment \<Rightarrow> js \<Rightarrow> client_state \<Rightarrow> result" where
  "handleAgentResponse rt env payload st =
     (let responses = extractResponses payload in
      if responses = [] then Done st
      else and_next (forEach_response rt env responses st) (completion_step rt payload))"

definition updateVoice :: "string \<Rightarrow> client_state \<Rightarrow> client_state" where
  "updateVoice newVoice st =
     (if newVoice = voice st then st
      else st \<lparr> voice := newVoice, incomingMessageRef := None \<rparr>)"

definition handleSocketClose :: "client_state \<Rightarrow> client_state" where
  "handleSocketClose st =
     clearScheduledAudio
       (st \<lparr> connection := False, microphoneOpen := False, currentSpeaker := None,
              incomingMessageRef := None \<rparr>)"

subsection \<open>Canonical events\<close>

text \<open>
  The events of the design that an \<^verbatim>\<open>agent-response\<close> payload gives rise to, in the
  words of the specification: the classifier turns a payload into a sequence of events,
  the aggregator consumes them in order.
\<close>

datatype canonical_event =
    ResponseTextDelta js
  | ResponseAudioDelta bytes
  | TurnComplete

fun is_data :: "canonical_event \<Rightarrow> bool" where
  "is_data TurnComplete = False"
| "is_data ev = True"

text \<open>
  A classification is the sequence of the events derived, and whether a
  \<^verbatim>\<open>TypeError\<close> ended the derivation after them. Of two classifications in sequence
  the second counts only if the first was not interrupted.
\<close>

datatype classification = Events "canonical_event list" | Interrupted "canonical_event list"

fun events_of :: "classification \<Rightarrow> canonical_event list" where
  "events_of (Events evs) = evs"
| "events_of (Interrupted evs) = evs"

fun interrupted :: "classification \<Rightarrow> bool" where
  "interrupted (Events evs) = False"
| "interrupted (Interrupted evs) = True"

fun then_events :: "classification \<Rightarrow> classification \<Rightarrow> classification" where
  "then_events (Interrupted a) c = Interrupted a"
| "then_events (Events a) (Events b) = Events (a @ b)"
| "then_events (Events a) (Interrupted b) = Interrupted (a @ b)"

text \<open>
  The events of one sub-object, in the order in which the loop body of
  \<^verbatim>\<open>handleAgentResponse\<close> derives them: its text delta, its audio delta, its completion.
\<close>

definition text_events :: "runtime \<Rightarrow> js \<Rightarrow> classification" where
  "text_events rt response =
     (case responseType rt response of
        Throws \<Rightarrow> Interrupted []
      | Returns ty \<Rightarrow>
          if str_includes ty ''text'' \<or> ty = ''message''
          then (case textFromResponse rt response of
                  Throws \<Rightarrow> Interrupted []
                | Returns txt \<Rightarrow> Events (if truthy txt then [ResponseTextDelta txt] else []))
          else Events [])"

definition audio_events :: "runtime \<Rightarrow> js \<Rightarrow> classification" where
  "audio_events rt response =
     (case audioFromResponse rt response of
        Throws \<Rightarrow> Interrupted []
      | Returns (JArrayBuffer audioBuffer) \<Rightarrow> Events [ResponseAudioDelta audioBuffer]
      | Returns _ \<Rightarrow> Events [])"

definition completion_events :: "runtime \<Rightarrow> js \<Rightarrow> classification" where
  "completion_events rt v =
     (case responseIsComplete rt v of
        Throws \<Rightarrow> Interrupted []
      | Returns isComplete \<Rightarrow> Events (if isComplete then [TurnComplete] else []))"

definition classify_response :: "runtime \<Rightarrow> js \<Rightarrow> classification" where
  "classify_response rt response =
     (if \<not> truthy response then Events []
      else then_events (text_events rt response)
             (then_events (audio_events rt response) (completion_events rt response)))"

fun classify_all :: "runtime \<Rightarrow> js list \<Rightarrow> classification" where
  "classify_all rt [] = Events []"
| "classify_all rt (response # rest) =
     then_events (classify_response rt response) (classify_all rt rest)"

definition classify_agent_response :: "runtime \<Rightarrow> js \<Rightarrow> classification" where
  "classify_agent_response rt payload =
     (if extractResponses payload = [] then Events []
      else then_events (classify_all rt (extractResponses payload))
             (completion_events rt payload))"

text \<open>
  The aggregator on one event, on a sequence of events, and on a classification; an
  exception ends the sequence, and an interrupted classification ends in one.
\<close>

fun aggregate_event ::
  "runtime \<Rightarrow> environment \<Rightarrow> canonical_event \<Rightarrow> client_state \<Rightarrow> result" where
  "aggregate_event rt env (ResponseTextDelta txt) st = append_response_text rt env txt st"
| "aggregate_event rt env (ResponseAudioDelta audioBuffer) st =
     append_response_audio env audioBuffer st"
| "aggregate_event rt env TurnComplete st = Done (finalizeIncomingMessage st)"

fun aggregate_events ::
  "runtime \<Rightarrow> environment \<Rightarrow> canonical_event list \<Rightarrow> client_state \<Rightarrow> result" where
  "aggregate_events rt env [] st = Done st"
| "aggregate_events rt env (ev # evs) st =
     and_next (aggregate_event rt env ev st) (aggregate_events rt env evs)"

fun aggregate ::
  "runtime \<Rightarrow> environment \<Rightarrow> classification \<Rightarrow> client_state \<Rightarrow> result" where
  "aggregate rt env (Events evs) st = aggregate_events rt env evs st"
| "aggregate rt env (Interrupted evs) st = and_next (aggregate_events rt env evs st) Threw"

subsection \<open>The invariant of the aggregator\<close>

text \<open>
  The open model message is the one \<open>incomingMessageRef\<close> holds; at most one exists, by
  the type of the ref. The invariant: every identifier in the conversation was drawn from
  the environment, no two messages share one, and an open message is the last element of
  the conversation, with role model.
\<close>

definition aggregator_inv :: "environment \<Rightarrow> client_state \<Rightarrow> bool" where
  "aggregator_inv env st =
     (list_all (\<lambda>m. msg_id m \<in> set (map (new_id env) [0..<ids_drawn st])) (chatMessages st) \<and>
      distinct (map msg_id (chatMessages st)) \<and>
      (case incomingMessageRef st of
         None \<Rightarrow> True
       | Some current \<Rightarrow>
           chatMessages st \<noteq> [] \<and> last (chatMessages st) = current \<and>
           msg_role current = Role_model))"

text \<open>The finalized messages: the conversation without its open message.\<close>

definition finalized :: "client_state \<Rightarrow> message list" where
  "finalized st =
     (case incomingMessageRef st of
        None \<Rightarrow> chatMessages st
      | Some current \<Rightarrow> butlast (chatMessages st))"

text \<open>The operations that handle an event, by name.\<close>

datatype operation =
    Ensure
  | UpdateContent js
  | UpdateAudio bytes
  | Finalize
  | TranscriptMessage js
  | AgentResponse js
  | BinaryAudio bytes
  | SocketClose
  | UpdateVoice string

fun perform :: "runtime \<Rightarrow> environment \<Rightarrow> operation \<Rightarrow> client_state \<Rightarrow> client_state" where
  "perform rt env Ensure st = ensureIncomingMessage env st"
| "perform rt env (UpdateContent c) st =
     updateIncomingMessage env (\<lambda>m. m \<lparr> msg_content := c \<rparr>) st"
| "perform rt env (UpdateAudio a) st =
     updateIncomingMessage env (\<lambda>m. m \<lparr> msg_audio := Some a \<rparr>) st"
| "perform rt env Finalize st = finalizeIncomingMessage st"
| "perform rt env (TranscriptMessage payload) st =
     state_of (handleTranscriptMessage rt env payload st)"
| "perform rt env (AgentResponse payload) st = state_of (handleAgentResponse rt env payload st)"
| "perform rt env (BinaryAudio b) st = state_of (append_response_audio env b st)"
| "perform rt env SocketClose st = handleSocketClose st"
| "perform rt env (UpdateVoice newVoice) st = updateVoice newVoice st"

text \<open>
  What every operation keeps: the invariant holds afterwards, and the finalized messages
  of before are still there, unchanged and in place.
\<close>

definition keeps :: "environment \<Rightarrow> client_state \<Rightarrow> client_state \<Rightarrow> bool" where
  "keeps env st st' = (aggregator_inv env st' \<and> prefix (finalized st) (finalized st'))"

section \<open>A runtime for concrete evaluation\<close>

text \<open>
  The general theorems below hold for every runtime. Closed examples need one: this one
  formats every number as \<^verbatim>\<open>0\<close>, parses no string as a number and knows the JSON text of
  one message. No example below depends on how it formats or parses a number.
\<close>

definition example_request :: js where
  "example_request =
     JObj [(''type'', JStr ''Agent-Request''),
           (''agent'', JObj [(''model'', JStr ''aura-asteria-en''),
                             (''instructions'', JStr ''Be brief.'')]),
           (''audio'', JObj [(''format'', JStr ''linear16'')])]"

definition example_runtime :: runtime where
  "example_runtime =
     \<lparr> NumberToString = (\<lambda>r. ''0''),
       StringToNumber = (\<lambda>s. NaN),
       JSON_parse = (\<lambda>s. if s = ''request'' then Some example_request else None),
       JSON_stringify = (\<lambda>v. ''json'') \<rparr>"

text \<open>
  An environment whose identifiers are pairwise different, and the state of a provider that
  has just been mounted.
\<close>

definition example_environment :: environment where
  "example_environment =
     \<lparr> new_id = (\<lambda>k. replicate (Suc k) (CHR ''i'')), currentTime = (\<lambda>k. of_nat k) \<rparr>"

definition initial_state :: client_state where
  "initial_state =
     \<lparr> connection = False, voice = ''aura-asteria-en'', currentSpeaker = None,
       microphoneOpen = False, chatMessages = [], audioContextRef = False,
       scheduledAudioSourcesRef = [], scheduledStartRef = 0, incomingMessageRef = None,
       ids_drawn = 0, clock_reads = 0 \<rparr>"

text \<open>
  A state in the middle of a model turn: one finalized user message, an open model message
  and one scheduled audio segment.
\<close>

definition busy_state :: client_state where
  "busy_state =
     initial_state
       \<lparr> connection := True, currentSpeaker := Some model, audioContextRef := True,
         chatMessages :=
           [\<lparr> msg_id = ''i'', msg_role = Role_user, msg_content = JStr ''Hi'',
              msg_audio = None, msg_voice = None \<rparr>,
            \<lparr> msg_id = ''ii'', msg_role = Role_model, msg_content = JStr ''Hello'',
              msg_audio = Some [0, 0, 1, 0], msg_voice = Some ''aura-asteria-en'' \<rparr>],
         incomingMessageRef :=
           Some \<lparr> msg_id = ''ii'', msg_role = Role_model, msg_content = JStr ''Hello'',
                  msg_audio = Some [0, 0, 1, 0], msg_voice = Some ''aura-asteria-en'' \<rparr>,
         scheduledAudioSourcesRef := [(0, 2)], scheduledStartRef := 1 / 12000,
         ids_drawn := 2, clock_reads := 1 \<rparr>"

section \<open>Properties of the classifier\<close>

text \<open>
  C6, as the code has it. Completion is detected, that is \<^verbatim>\<open>responseIsComplete\<close> returns
  \<^verbatim>\<open>true\<close>, exactly when the sub-object is truthy and its \<^verbatim>\<open>type\<close> is "completed" or
  "done"; or its \<^verbatim>\<open>status\<close> is truthy, \<^verbatim>\<open>String(status)\<close> returns and, lower-cased, is
  one of completed, complete, finished, done; or its \<^verbatim>\<open>status\<close> is absent or falsy and it
  has a truthy \<^verbatim>\<open>completion_reason\<close> or \<^verbatim>\<open>done === true\<close>. A truthy status decides
  alone: \<^verbatim>\<open>completion_reason\<close> and \<^verbatim>\<open>done\<close> are read only when there is none.
\<close>

theorem responseIsComplete_iff:
  "responseIsComplete rt response = Returns True \<longleftrightarrow>
     (truthy response \<and>
      (get response ''type'' = JStr ''completed'' \<or> get response ''type'' = JStr ''done'' \<or>
       (truthy (get response ''status'') \<and>
          (\<exists>s. ToString rt (get response ''status'') = Returns s \<and>
               toLowerCase s \<in> set [''completed'', ''complete'', ''finished'', ''done''])) \<or>
       (\<not> truthy (get response ''status'') \<and>
          (truthy (get response ''completion_reason'') \<or> get response ''done'' = JBool True))))"
proof (cases "ToString rt (get response ''status'')")
  case (Returns s)
  then show ?thesis unfolding responseIsComplete_def by auto
next
  case Throws
  then show ?thesis unfolding responseIsComplete_def by auto
qed

text \<open>
  The check ends in a \<^verbatim>\<open>TypeError\<close> exactly when the status decides and
  \<^verbatim>\<open>String(status)\<close> throws; in every other case it returns.
\<close>

lemma responseIsComplete_throws:
  "responseIsComplete rt response = Throws \<longleftrightarrow>
     (truthy response \<and> get response ''type'' \<noteq> JStr ''completed'' \<and>
      get response ''type'' \<noteq> JStr ''done'' \<and> truthy (get response ''status'') \<and>
      ToString rt (get response ''status'') = Throws)"
proof (cases "ToString rt (get response ''status'')")
  case (Returns s)
  then show ?thesis unfolding responseIsComplete_def by auto
next
  case Throws
  then show ?thesis unfolding responseIsComplete_def by auto
qed

text \<open>
  C6 as stated fails: a sub-object with a status that matches none of the four words and
  \<^verbatim>\<open>done: true\<close> is not detected as complete.
\<close>

theorem responseIsComplete_status_counterexample:
  "get (JObj [(''status'', JStr ''in_progress''), (''done'', JBool True)]) ''done'' = JBool True \<and>
   responseIsComplete example_runtime
     (JObj [(''status'', JStr ''in_progress''), (''done'', JBool True)]) = Returns False"
  by (simp add: responseIsComplete_def toLowerCase_def lower_char_def)

text \<open>
  C5, as the code has it. For every truthy transcript payload the finality flag is true
  whenever \<^verbatim>\<open>is_final\<close> or \<^verbatim>\<open>final\<close> is truthy, or \<^verbatim>\<open>type\<close> is "final_transcript",
  or \<^verbatim>\<open>channel.alternatives[0].confidence\<close> is a number greater than zero.
\<close>

theorem isFinalTranscript_true:
  assumes "truthy payload"
    and "truthy (get payload ''is_final'') \<or> truthy (get payload ''final'') \<or>
         get payload ''type'' = JStr ''final_transcript'' \<or>
         (\<exists>r. alternative_confidence payload = JNum r \<and> 0 < r)"
  shows "isFinalTranscript rt payload = Returns True"
  using assms
  by (auto simp: isFinalTranscript_def or_js_def greater_than_zero_def)

theorem isFinalTranscript_true_witness:
  "isFinalTranscript example_runtime
     (JObj [(''channel'',
        JObj [(''alternatives'', JArr [JObj [(''transcript'', JStr ''hello''),
                                            (''confidence'', JNum (9 / 10))]])])]) = Returns True"
proof -
  let ?p = "JObj [(''channel'',
        JObj [(''alternatives'', JArr [JObj [(''transcript'', JStr ''hello''),
                                            (''confidence'', JNum (9 / 10))]])])]"
  have t: "truthy ?p" by simp
  have c: "alternative_confidence ?p = JNum (9 / 10)"
    by (simp add: alternative_confidence_def oget_def ofirst_def nullish_def)
  have "\<exists>r. alternative_confidence ?p = JNum r \<and> 0 < r"
    using c by (intro exI [of _ "9 / 10"]) simp
  then have "truthy (get ?p ''is_final'') \<or> truthy (get ?p ''final'') \<or>
         get ?p ''type'' = JStr ''final_transcript'' \<or>
         (\<exists>r. alternative_confidence ?p = JNum r \<and> 0 < r)"
    by blast
  from isFinalTranscript_true [OF t this] show ?thesis .
qed

text \<open>
  C5 as stated fails: a negative confidence is truthy, and the flag is false.
\<close>

theorem isFinalTranscript_confidence_counterexample:
  "truthy (alternative_confidence
     (JObj [(''channel'', JObj [(''alternatives'', JArr [JObj [(''confidence'', JNum (- 1))]])])])) \<and>
   isFinalTranscript example_runtime
     (JObj [(''channel'', JObj [(''alternatives'', JArr [JObj [(''confidence'', JNum (- 1))]])])])
     = Returns False"
  by (simp add: isFinalTranscript_def alternative_confidence_def oget_def ofirst_def
      nullish_def or_js_def greater_than_zero_def)

section \<open>Properties of the relay\<close>

text \<open>
  C9. If the upstream credential is missing (unset or empty) the handler answers 500 with a
  JSON error body; otherwise, if the \<^verbatim>\<open>upgrade\<close> header is absent or is not "websocket"
  in any letter case, it answers 400 with a JSON error body. In both cases no socket pair is
  created, no upstream socket is opened and no client socket is accepted.
\<close>

theorem GET_rejects:
  "(\<not> present (deepGramApiKey cfg) \<longrightarrow>
      GET cfg pairs upgrade =
        (JsonResponse 500 (JObj [(''error'', JStr ''Deepgram API key is not configured.'')]), [])) \<and>
   (present (deepGramApiKey cfg) \<and> map_option toLowerCase upgrade \<noteq> Some ''websocket'' \<longrightarrow>
      GET cfg pairs upgrade =
        (JsonResponse 400 (JObj [(''error'', JStr ''Expected a WebSocket upgrade request.'')]), []))"
  by (simp add: GET_def)

theorem GET_rejects_witness:
  "GET \<lparr>deepGramApiKey = None, llmProvider = None, llmApiKey = None, llmModel = None\<rparr>
       global_pair (Some ''websocket'') =
     (JsonResponse 500 (JObj [(''error'', JStr ''Deepgram API key is not configured.'')]), []) \<and>
   GET \<lparr>deepGramApiKey = Some ''secret'', llmProvider = None, llmApiKey = None, llmModel = None\<rparr>
       global_pair (Some ''keep-alive'') =
     (JsonResponse 400 (JObj [(''error'', JStr ''Expected a WebSocket upgrade request.'')]), []) \<and>
   GET \<lparr>deepGramApiKey = Some ''secret'', llmProvider = None, llmApiKey = None, llmModel = None\<rparr>
       global_pair (Some ''WebSocket'') =
     (SwitchingProtocols,
      [NewWebSocketPair, NewWebSocket ''wss://agent.deepgram.com/v1/listen'' [''bearer'', ''secret''],
       AcceptClient])"
proof -
  let ?none = "\<lparr>deepGramApiKey = None, llmProvider = None, llmApiKey = None, llmModel = None\<rparr>"
  let ?key = "\<lparr>deepGramApiKey = Some ''secret'', llmProvider = None, llmApiKey = None,
                llmModel = None\<rparr>"
  have a: "\<not> present (deepGramApiKey ?none)" by simp
  have b: "present (deepGramApiKey ?key) \<and>
           map_option toLowerCase (Some ''keep-alive'') \<noteq> Some ''websocket''"
    by (simp add: toLowerCase_def lower_char_def)
  have c: "GET ?key global_pair (Some ''WebSocket'') =
     (SwitchingProtocols,
      [NewWebSocketPair, NewWebSocket ''wss://agent.deepgram.com/v1/listen'' [''bearer'', ''secret''],
       AcceptClient])"
    by (simp add: GET_def toLowerCase_def lower_char_def DEEPGRAM_AGENT_URL_def)
  from GET_rejects [of ?none global_pair "Some ''websocket''"] a
  have "GET ?none global_pair (Some ''websocket'') =
     (JsonResponse 500 (JObj [(''error'', JStr ''Deepgram API key is not configured.'')]), [])"
    by blast
  moreover from GET_rejects [of ?key global_pair "Some ''keep-alive''"] b
  have "GET ?key global_pair (Some ''keep-alive'') =
     (JsonResponse 400 (JObj [(''error'', JStr ''Expected a WebSocket upgrade request.'')]), [])"
    by blast
  ultimately show ?thesis using c by simp
qed

lemma get_put_same: "get (JObj (put kvs k v)) k = v"
  by (induction kvs) auto

lemma get_put_other: "k' \<noteq> k \<Longrightarrow> get (JObj (put kvs k v)) k' = get (JObj kvs) k'"
  by (induction kvs) auto

lemma toLowerCase_Nil_iff: "toLowerCase s = [] \<longleftrightarrow> s = []"
  by (simp add: toLowerCase_def)

lemma get_JStr_is_object: "get v k = JStr t \<Longrightarrow> \<exists>kvs. v = JObj kvs"
  by (cases v) auto

text \<open>
  C1. Let the configured provider \<open>p\<close> and API key be non-empty (both are needed for the
  injection), and let the message parse to a value whose \<^verbatim>\<open>type\<close> is "agent-request" in
  any letter case. Then the rewriter returns the serialisation of a value in which
  \<^verbatim>\<open>agent.think\<close> is \<^verbatim>\<open>{provider: {type, model?}, auth: {type: "api_key", value}}\<close>, with
  the lower-cased provider as \<^verbatim>\<open>type\<close>, the configured model or else the provider's
  default as \<^verbatim>\<open>model\<close> (the key is left out when there is neither) and the API key as
  \<^verbatim>\<open>value\<close>; \<^verbatim>\<open>agent.instructions\<close> is the one of the message; and every top-level
  field other than \<^verbatim>\<open>agent\<close> is the one of the message.
\<close>

theorem injectExternalThinkSettings_rewrites:
  assumes "llmProvider cfg = Some p" and "p \<noteq> []"
    and "llmApiKey cfg = Some key" and "key \<noteq> []"
    and "toLowerCase p \<notin> {''constructor'', ''__proto__''}"
    and "JSON_parse rt message = Some parsed"
    and "get parsed ''type'' = JStr t" and "toLowerCase t = ''agent-request''"
  shows "injectExternalThinkSettings rt cfg message =
           Some (JSON_stringify rt (rewritten cfg parsed)) \<and>
         get (get (rewritten cfg parsed) ''agent'') ''think'' =
           JObj [(''provider'',
                  JObj ((''type'', JStr (toLowerCase p)) #
                        (case (if present (llmModel cfg) then llmModel cfg
                               else BYO_DEFAULT_MODELS (toLowerCase p)) of
                           None \<Rightarrow> []
                         | Some m \<Rightarrow> [(''model'', JStr m)]))),
                 (''auth'', JObj [(''type'', JStr ''api_key''), (''value'', JStr key)])] \<and>
         get (get (rewritten cfg parsed) ''agent'') ''instructions'' =
           oget (get parsed ''agent'') ''instructions'' \<and>
         (\<forall>k. k \<noteq> ''agent'' \<longrightarrow> get (rewritten cfg parsed) k = get parsed k)"
proof -
  obtain kvs where parsed: "parsed = JObj kvs"
    using get_JStr_is_object [OF assms(7)] by blast
  have prov: "session_llmProvider cfg = Some (toLowerCase p)"
    by (simp add: session_llmProvider_def assms(1))
  have inj: "shouldInjectExternalLlm cfg"
    by (simp add: shouldInjectExternalLlm_def prov assms(2,3,4) toLowerCase_Nil_iff)
  have ty: "coalesce (oget parsed ''type'') (JStr []) = JStr t"
    using assms(7) by (simp add: parsed coalesce_def oget_def nullish_def)
  have 1: "injectExternalThinkSettings rt cfg message =
           Some (JSON_stringify rt (rewritten cfg parsed))"
    by (simp add: injectExternalThinkSettings_def inj assms(6,8) ty)
  have agent: "get (rewritten cfg parsed) ''agent'' =
      JObj (put (put (spread (coalesce (get parsed ''agent'') (JObj []))) ''instructions''
                   (get (coalesce (get parsed ''agent'') (JObj [])) ''instructions''))
              ''think'' (thinkConfig cfg))"
    by (simp add: rewritten_def Let_def set_prop_def parsed get_put_same del: get.simps)
  have default_present: "present (BYO_DEFAULT_MODELS (toLowerCase p)) \<or>
      BYO_DEFAULT_MODELS (toLowerCase p) = None"
    by (simp add: BYO_DEFAULT_MODELS_def)
  have model: "session_llmModel cfg =
      (if present (llmModel cfg) then llmModel cfg else BYO_DEFAULT_MODELS (toLowerCase p))"
    by (simp add: session_llmModel_def prov assms(2) toLowerCase_Nil_iff)
  have think: "thinkConfig cfg =
           JObj [(''provider'',
                  JObj ((''type'', JStr (toLowerCase p)) #
                        (case (if present (llmModel cfg) then llmModel cfg
                               else BYO_DEFAULT_MODELS (toLowerCase p)) of
                           None \<Rightarrow> []
                         | Some m \<Rightarrow> [(''model'', JStr m)]))),
                 (''auth'', JObj [(''type'', JStr ''api_key''), (''value'', JStr key)])]"
  proof (cases "present (llmModel cfg)")
    case True
    then obtain m where "llmModel cfg = Some m" by (cases "llmModel cfg") auto
    with True show ?thesis by (simp add: thinkConfig_def model prov assms(3))
  next
    case False
    with default_present show ?thesis
      by (cases "BYO_DEFAULT_MODELS (toLowerCase p)")
         (auto simp: thinkConfig_def model prov assms(3))
  qed
  have 2: "get (get (rewritten cfg parsed) ''agent'') ''think'' = thinkConfig cfg"
    unfolding agent by (rule get_put_same)
  have instr_eq: "get (coalesce (get parsed ''agent'') (JObj [])) ''instructions'' =
      oget (get parsed ''agent'') ''instructions''"
    by (auto simp: coalesce_def oget_def nullish_def)
  have 3: "get (get (rewritten cfg parsed) ''agent'') ''instructions'' =
           oget (get parsed ''agent'') ''instructions''"
    unfolding agent by (simp add: get_put_other get_put_same instr_eq del: get.simps)
  have 4: "\<forall>k. k \<noteq> ''agent'' \<longrightarrow> get (rewritten cfg parsed) k = get parsed k"
    by (simp add: rewritten_def Let_def set_prop_def parsed get_put_other del: get.simps)
  from 1 2 3 4 think show ?thesis by simp
qed

theorem injectExternalThinkSettings_rewrites_witness:
  "injectExternalThinkSettings example_runtime
       \<lparr>deepGramApiKey = Some ''secret'', llmProvider = Some ''OpenAI'', llmApiKey = Some ''k'',
        llmModel = None\<rparr> ''request'' =
     Some (JSON_stringify example_runtime
       (rewritten \<lparr>deepGramApiKey = Some ''secret'', llmProvider = Some ''OpenAI'',
                   llmApiKey = Some ''k'', llmModel = None\<rparr> example_request)) \<and>
   get (get (rewritten \<lparr>deepGramApiKey = Some ''secret'', llmProvider = Some ''OpenAI'',
                         llmApiKey = Some ''k'', llmModel = None\<rparr> example_request) ''agent'')
       ''think'' =
     JObj [(''provider'', JObj [(''type'', JStr ''openai''), (''model'', JStr ''gpt-4o-mini'')]),
           (''auth'', JObj [(''type'', JStr ''api_key''), (''value'', JStr ''k'')])] \<and>
   get (get (rewritten \<lparr>deepGramApiKey = Some ''secret'', llmProvider = Some ''OpenAI'',
                         llmApiKey = Some ''k'', llmModel = None\<rparr> example_request) ''agent'')
       ''instructions'' = JStr ''Be brief.'' \<and>
   get (rewritten \<lparr>deepGramApiKey = Some ''secret'', llmProvider = Some ''OpenAI'',
                    llmApiKey = Some ''k'', llmModel = None\<rparr> example_request) ''audio'' =
     JObj [(''format'', JStr ''linear16'')]"
proof -
  let ?cfg = "\<lparr>deepGramApiKey = Some ''secret'', llmProvider = Some ''OpenAI'',
               llmApiKey = Some ''k'', llmModel = None\<rparr>"
  have low: "toLowerCase ''OpenAI'' = ''openai''"
    by (simp add: toLowerCase_def lower_char_def)
  have h1: "llmProvider ?cfg = Some ''OpenAI''" by simp
  have h2: "''OpenAI'' \<noteq> []" by simp
  have h3: "llmApiKey ?cfg = Some ''k''" by simp
  have h4: "''k'' \<noteq> []" by simp
  have h5: "toLowerCase ''OpenAI'' \<notin> {''constructor'', ''__proto__''}"
    unfolding low by simp
  have h6: "JSON_parse example_runtime ''request'' = Some example_request"
    by (simp add: example_runtime_def)
  have h7: "get example_request ''type'' = JStr ''Agent-Request''"
    by (simp add: example_request_def)
  have h8: "toLowerCase ''Agent-Request'' = ''agent-request''"
    by (simp add: toLowerCase_def lower_char_def)
  have instr: "oget (get example_request ''agent'') ''instructions'' = JStr ''Be brief.''"
    by (simp add: example_request_def oget_def nullish_def)
  have audio: "get example_request ''audio'' = JObj [(''format'', JStr ''linear16'')]"
    by (simp add: example_request_def)
  have dflt: "BYO_DEFAULT_MODELS ''openai'' = Some ''gpt-4o-mini''"
    by (simp add: BYO_DEFAULT_MODELS_def)
  from injectExternalThinkSettings_rewrites [OF h1 h2 h3 h4 h5 h6 h7 h8]
  show ?thesis
    by (simp add: low dflt instr audio del: get.simps)
qed

text \<open>
  C2. The rewriter returns \<^verbatim>\<open>null\<close> when no external model is configured, or the message
  does not parse, or the parsed value has no string \<^verbatim>\<open>type\<close> equal to "agent-request" in
  any letter case; a parse failure is a \<^verbatim>\<open>null\<close> like the others, not an error. The
  listener of a bridged session (upstream socket open) then sends the very string it got.
\<close>

theorem rewriter_passes_through:
  assumes "\<not> shouldInjectExternalLlm cfg \<or>
           JSON_parse rt message = None \<or>
           (\<exists>parsed. JSON_parse rt message = Some parsed \<and>
              \<not> (\<exists>t. get parsed ''type'' = JStr t \<and> toLowerCase t = ''agent-request''))"
  shows "injectExternalThinkSettings rt cfg message = None \<and>
         client_message_listener rt cfg OPEN (TextFrame message) = Sent (TextFrame message)"
proof -
  have none: "injectExternalThinkSettings rt cfg message = None"
    using assms
  proof (elim disjE exE conjE)
    fix parsed
    assume p: "JSON_parse rt message = Some parsed"
      and n: "\<not> (\<exists>t. get parsed ''type'' = JStr t \<and> toLowerCase t = ''agent-request'')"
    have "toLowerCase [] \<noteq> ''agent-request''" by (simp add: toLowerCase_def)
    with n have "\<And>t. coalesce (oget parsed ''type'') (JStr []) = JStr t \<Longrightarrow>
        toLowerCase t \<noteq> ''agent-request''"
      by (auto simp: coalesce_def oget_def nullish_def split: if_splits)
    then show ?thesis
      by (auto simp: injectExternalThinkSettings_def p split: js.splits)
  qed (simp_all add: injectExternalThinkSettings_def)
  then show ?thesis
    by (simp add: client_message_listener_def)
qed

theorem rewriter_passes_through_witness:
  "JSON_parse example_runtime ''{oops'' = None \<and>
   injectExternalThinkSettings example_runtime
       \<lparr>deepGramApiKey = Some ''secret'', llmProvider = Some ''openai'', llmApiKey = Some ''k'',
        llmModel = None\<rparr> ''{oops'' = None \<and>
   client_message_listener example_runtime
       \<lparr>deepGramApiKey = Some ''secret'', llmProvider = Some ''openai'', llmApiKey = Some ''k'',
        llmModel = None\<rparr> OPEN (TextFrame ''{oops'') = Sent (TextFrame ''{oops'')"
proof -
  have p: "JSON_parse example_runtime ''{oops'' = None"
    by (simp add: example_runtime_def)
  from rewriter_passes_through [of _ example_runtime "''{oops''", OF disjI2, OF disjI1, OF p] p
  show ?thesis by blast
qed

section \<open>Properties of the audio payloads\<close>

subsection \<open>Base64\<close>

lemma distinct_alphabet: "distinct base64_alphabet"
  by (simp add: base64_alphabet_def)

lemma length_alphabet: "length base64_alphabet = 64"
  by (simp add: base64_alphabet_def)

lemma index_of_nth: "distinct xs \<Longrightarrow> n < length xs \<Longrightarrow> index_of (xs ! n) xs = Some n"
proof (induction xs arbitrary: n)
  case Nil
  then show ?case by simp
next
  case (Cons y ys)
  show ?case
  proof (cases n)
    case 0
    then show ?thesis by simp
  next
    case (Suc m)
    with Cons.prems have "ys ! m \<noteq> y" by auto
    with Suc Cons show ?thesis by simp
  qed
qed

lemma value_char: "n < 64 \<Longrightarrow> base64_value (base64_char n) = Some n"
  by (simp add: base64_value_def base64_char_def index_of_nth distinct_alphabet length_alphabet)

lemma alphabet_plain: "\<forall>c\<in>set base64_alphabet. c \<noteq> CHR ''='' \<and> \<not> ascii_whitespace c"
  by (simp add: base64_alphabet_def ascii_whitespace_def)

lemma char_plain: "n < 64 \<Longrightarrow> base64_char n \<noteq> CHR ''='' \<and> \<not> ascii_whitespace (base64_char n)"
  using alphabet_plain by (simp add: base64_char_def length_alphabet)


lemma encode_split: "base64_encode b = map base64_char (sextets b) @ padding b"
  by (induction b rule: base64_encode.induct) simp_all

lemma sextet2_bound: "a < 256 \<Longrightarrow> b < 256 \<Longrightarrow> (a mod 4) * 16 + b div 16 < (64::nat)"
proof -
  assume "a < 256" "b < 256"
  have "a mod 4 \<le> 3" by simp
  moreover have "b div 16 < 16" using \<open>b < 256\<close> by simp
  ultimately show ?thesis by linarith
qed

lemma sextet2_div: "b < 256 \<Longrightarrow> ((a mod 4) * 16 + b div 16) div 16 = (a mod 4 :: nat)"
proof -
  assume "b < 256"
  then have "b div 16 < 16" by simp
  then show ?thesis by simp
qed

lemma sextet2_mod: "b < 256 \<Longrightarrow> ((a mod 4) * 16 + b div 16) mod 16 = (b div 16 :: nat)"
proof -
  assume "b < 256"
  then have "b div 16 < 16" by simp
  then show ?thesis by simp
qed

lemma sextet3_div: "c < 256 \<Longrightarrow> ((b mod 16) * 4 + c div 64) div 4 = (b mod 16 :: nat)"
proof -
  assume "c < 256"
  then have "c div 64 < 4" by simp
  then show ?thesis by simp
qed

lemma sextet3_mod: "c < 256 \<Longrightarrow> ((b mod 16) * 4 + c div 64) mod 4 = (c div 64 :: nat)"
proof -
  assume "c < 256"
  then have "c div 64 < 4" by simp
  then show ?thesis by simp
qed

lemma quarter_split: "a div 4 * 4 + a mod 4 = (a::nat)" by simp
lemma sixteenth_split: "b div 16 * 16 + b mod 16 = (b::nat)" by simp
lemma sixtyfourth_split: "c div 64 * 64 + c mod 64 = (c::nat)" by simp
lemma sextet2_alone_div: "((a mod 4) * 16) div 16 = (a mod 4 :: nat)" by simp
lemma sextet3_alone_div: "((b mod 16) * 4) div 4 = (b mod 16 :: nat)" by simp
lemma sextet1_bound: "a < 256 \<Longrightarrow> a div 4 < (64::nat)" by simp
lemma sextet3_bound: "c < 256 \<Longrightarrow> (b mod 16) * 4 + c div 64 < (64::nat)"
proof -
  assume "c < 256"
  then have "c div 64 < 4" by simp
  moreover have "b mod 16 \<le> 15" by simp
  ultimately show ?thesis by linarith
qed
lemma sextet2_alone_bound: "(a mod 4) * 16 < (64::nat)"
proof -
  have "a mod 4 \<le> 3" by simp
  then show ?thesis by linarith
qed
lemma sextet3_alone_bound: "(b mod 16) * 4 < (64::nat)"
proof -
  have "b mod 16 \<le> 15" by simp
  then show ?thesis by linarith
qed


lemma sextets_bound: "\<forall>x\<in>set b. x < 256 \<Longrightarrow> \<forall>s\<in>set (sextets b). s < 64"
  by (induction b rule: sextets.induct) (simp_all add: sextet2_bound sextet1_bound sextet3_bound sextet2_alone_bound sextet3_alone_bound)

lemma decode_sextets_sextets: "\<forall>x\<in>set b. x < 256 \<Longrightarrow> decode_sextets (sextets b) = b"
proof (induction b rule: sextets.induct)
  case 1
  show ?case by simp
next
  case (2 a)
  have "decode_sextets (sextets [a]) = [a div 4 * 4 + (a mod 4) * 16 div 16]"
    by (simp only: sextets.simps decode_sextets.simps)
  also have "\<dots> = [a]" by (simp only: sextet2_alone_div quarter_split)
  finally show ?case .
next
  case (3 a b)
  then have bd: "b < 256" by simp
  have "decode_sextets (sextets [a, b]) =
      [a div 4 * 4 + ((a mod 4) * 16 + b div 16) div 16,
       (((a mod 4) * 16 + b div 16) mod 16) * 16 + (b mod 16) * 4 div 4]"
    by (simp only: sextets.simps decode_sextets.simps)
  also have "\<dots> = [a, b]" using bd by (simp only: sextet2_div sextet2_mod sextet3_alone_div quarter_split sixteenth_split)
  finally show ?case .
next
  case (4 a b c rest)
  then have bd: "b < 256" "c < 256" and rest: "\<forall>x\<in>set rest. x < 256" by simp_all
  have "decode_sextets (sextets (a # b # c # rest)) =
      [a div 4 * 4 + ((a mod 4) * 16 + b div 16) div 16,
       (((a mod 4) * 16 + b div 16) mod 16) * 16 + ((b mod 16) * 4 + c div 64) div 4,
       (((b mod 16) * 4 + c div 64) mod 4) * 64 + c mod 64] @ decode_sextets (sextets rest)"
    by (simp only: sextets.simps decode_sextets.simps append_Cons append_Nil)
  also have "\<dots> = [a, b, c] @ rest"
    using bd by (simp only: sextet2_div sextet2_mod sextet3_div sextet3_mod quarter_split sixteenth_split sixtyfourth_split "4.IH" [OF rest])
  finally show ?case by simp
qed

lemma length_encode_mod: "length (base64_encode b) mod 4 = 0"
  by (induction b rule: base64_encode.induct) simp_all

lemma length_sextets_mod: "length (sextets b) mod 4 \<noteq> 1"
proof (induction b rule: sextets.induct)
  case (4 a b c rest)
  then show ?case by (simp add: mod_Suc)
qed simp_all

lemma padding_cases: "padding b = [] \<or> padding b = ''='' \<or> padding b = ''==''"
  by (induction b rule: padding.induct) simp_all

lemma strip_padding_plain:
  assumes "CHR ''='' \<notin> set xs"
  shows "strip_padding xs = xs"
proof -
  have "drop k xs \<noteq> ''==''" for k
  proof
    assume "drop k xs = ''==''"
    then have "CHR ''='' \<in> set (drop k xs)" by simp
    then show False using assms set_drop_subset [of k xs] by blast
  qed
  moreover have "drop k xs \<noteq> ''=''" for k
  proof
    assume "drop k xs = ''=''"
    then have "CHR ''='' \<in> set (drop k xs)" by simp
    then show False using assms set_drop_subset [of k xs] by blast
  qed
  ultimately show ?thesis by (simp add: strip_padding_def)
qed

lemma strip_padding_one:
  assumes "CHR ''='' \<notin> set xs" and "length (xs @ ''='') mod 4 = 0"
  shows "strip_padding (xs @ ''='') = xs"
proof (cases xs rule: rev_cases)
  case Nil
  with assms(2) show ?thesis by simp
next
  case (snoc ys y)
  with assms(1) have "y \<noteq> CHR ''=''" by auto
  with assms(2) show ?thesis by (simp add: strip_padding_def snoc)
qed

lemma strip_padding_two:
  assumes "length (xs @ ''=='') mod 4 = 0"
  shows "strip_padding (xs @ ''=='') = xs"
  using assms by (simp add: strip_padding_def)

lemma strip_padding_encode:
  assumes "\<forall>x\<in>set b. x < 256"
  shows "strip_padding (base64_encode b) = map base64_char (sextets b)"
proof -
  have "\<forall>s\<in>set (sextets b). base64_char s \<noteq> CHR ''=''"
    using sextets_bound [OF assms] char_plain by blast
  then have plain: "CHR ''='' \<notin> set (map base64_char (sextets b))"
  proof -
    assume a: "\<forall>s\<in>set (sextets b). base64_char s \<noteq> CHR ''=''"
    show ?thesis
    proof
      assume "CHR ''='' \<in> set (map base64_char (sextets b))"
      then obtain s where "s \<in> set (sextets b)" and "base64_char s = CHR ''=''" by auto
      with a show False by blast
    qed
  qed
  have len: "length (map base64_char (sextets b) @ padding b) mod 4 = 0"
    using length_encode_mod [of b] by (simp only: encode_split)
  from padding_cases [of b] show ?thesis
  proof (elim disjE)
    assume "padding b = []"
    then show ?thesis by (simp add: encode_split strip_padding_plain [OF plain])
  next
    assume p: "padding b = ''=''"
    with len show ?thesis by (simp only: encode_split p strip_padding_one [OF plain])
  next
    assume p: "padding b = ''==''"
    with len show ?thesis by (simp only: encode_split p strip_padding_two)
  qed
qed

lemma encode_no_whitespace:
  assumes "\<forall>x\<in>set b. x < 256"
  shows "filter (\<lambda>c. \<not> ascii_whitespace c) (base64_encode b) = base64_encode b"
proof -
  have "\<forall>c\<in>set (map base64_char (sextets b)). \<not> ascii_whitespace c"
    using sextets_bound [OF assms] char_plain by auto
  moreover have "\<forall>c\<in>set (padding b). \<not> ascii_whitespace c"
    using padding_cases [of b] by (auto simp: ascii_whitespace_def)
  ultimately show ?thesis by (simp add: encode_split)
qed

lemma atob_encode:
  assumes "\<forall>x\<in>set b. x < 256"
  shows "atob (base64_encode b) = Some b"
proof -
  let ?d = "map base64_char (sextets b)"
  have d: "strip_padding (filter (\<lambda>c. \<not> ascii_whitespace c) (base64_encode b)) = ?d"
    by (simp only: encode_no_whitespace [OF assms] strip_padding_encode [OF assms])
  have len: "length ?d mod 4 \<noteq> 1" using length_sextets_mod [of b] by simp
  have vals: "\<forall>s\<in>set (sextets b). base64_value (base64_char s) = Some s"
    using sextets_bound [OF assms] value_char by blast
  then have ok: "\<not> list_ex (\<lambda>c. base64_value c = None) ?d"
    by (auto simp: list_ex_iff)
  have "map (\<lambda>c. the (base64_value c)) ?d = sextets b"
    using vals by (simp add: map_idI)
  then show ?thesis
    unfolding atob_def Let_def d using len ok by (simp add: decode_sextets_sextets [OF assms])
qed


lemma base64_encode_nonempty: "b \<noteq> [] \<Longrightarrow> base64_encode b \<noteq> []"
  by (induction b rule: base64_encode.induct) simp_all

lemma encode_no_space:
  assumes "\<forall>x\<in>set b. x < 256"
  shows "filter (\<lambda>c. \<not> is_space c) (base64_encode b) = base64_encode b"
proof -
  have "\<forall>c\<in>set base64_alphabet. \<not> is_space c"
    by (simp add: base64_alphabet_def is_space_def)
  then have "\<forall>c\<in>set (map base64_char (sextets b)). \<not> is_space c"
    using sextets_bound [OF assms] by (simp add: base64_char_def length_alphabet)
  moreover have "\<forall>c\<in>set (padding b). \<not> is_space c"
    using padding_cases [of b] by (auto simp: is_space_def)
  ultimately show ?thesis by (simp add: encode_split)
qed

lemma decodeBase64_encode:
  assumes "\<forall>x\<in>set b. x < 256"
  shows "decodeBase64 (base64_encode b) = JArrayBuffer b"
proof -
  have "map (\<lambda>code. code mod 256) b = b"
    using assms by (simp add: map_idI)
  then show ?thesis
    by (simp add: decodeBase64_def encode_no_space [OF assms] atob_encode [OF assms])
qed

lemma ToUint8_byte: "n < 256 \<Longrightarrow> ToUint8 (Finite (of_nat n)) = n"
  by (simp add: ToUint8_def)

lemma all_returned_map: "all_returned (map (\<lambda>x. Returns (f x)) xs) = Returns (map f xs)"
  by (induction xs) simp_all

lemma new_Uint8Array_bytes:
  assumes "\<forall>x\<in>set b. x < 256"
  shows "new_Uint8Array rt (map (\<lambda>n. JNum (of_nat n)) b) = Returns b"
proof -
  have "map (ToNumber rt) (map (\<lambda>n. JNum (of_nat n)) b) =
        map (\<lambda>n. Returns (Finite (of_nat n))) b"
    by simp
  then have "all_returned (map (ToNumber rt) (map (\<lambda>n. JNum (of_nat n)) b)) =
        Returns (map (\<lambda>n. Finite (of_nat n)) b)"
    by (simp only: all_returned_map)
  moreover have "map ToUint8 (map (\<lambda>n. Finite (of_nat n)) b) = b"
    using assms by (simp add: ToUint8_byte map_idI)
  ultimately show ?thesis by (simp add: new_Uint8Array_def)
qed

subsection \<open>The encodings agree\<close>

text \<open>
  C3, as the code has it. For every non-empty sequence \<open>b\<close> of bytes and every truthy
  sub-object whose audio field holds \<open>b\<close> in one of the four encodings (a
  \<^verbatim>\<open>Uint8Array\<close> spanning its whole buffer), the extracted audio is an
  \<^verbatim>\<open>ArrayBuffer\<close> with exactly the bytes \<open>b\<close>.
\<close>

theorem audioFromResponse_encodings:
  assumes "\<forall>x\<in>set b. x < 256" and "b \<noteq> []"
    and "truthy response"
    and "audio_slot response \<in> set (audio_encodings b)"
  shows "audioFromResponse rt response = Returns (JArrayBuffer b)"
proof -
  from assms(4) consider
      "audio_slot response = JArrayBuffer b"
    | "audio_slot response = JUint8Array b 0 (length b)"
    | "audio_slot response = JStr (base64_encode b)"
    | "audio_slot response = byte_array b"
    | "audio_slot response = JObj [(''type'', JStr ''Buffer''), (''data'', byte_array b)]"
    by (auto simp: audio_encodings_def)
  then show ?thesis
  proof cases
    case 1
    then show ?thesis by (simp add: audioFromResponse_def assms(3))
  next
    case 2
    then show ?thesis by (simp add: audioFromResponse_def assms(3))
  next
    case 3
    then show ?thesis
      by (simp add: audioFromResponse_def assms(3) base64_encode_nonempty [OF assms(2)]
          decodeBase64_encode [OF assms(1)])
  next
    case 4
    then show ?thesis
      by (simp add: audioFromResponse_def assms(3) byte_array_def
          new_Uint8Array_bytes [OF assms(1)])
  next
    case 5
    then show ?thesis
      by (simp add: audioFromResponse_def assms(3) byte_array_def
          new_Uint8Array_bytes [OF assms(1)])
  qed
qed

theorem audioFromResponse_encodings_witness:
  "audioFromResponse example_runtime (JObj [(''audio'', JArrayBuffer [72, 105])]) =
     Returns (JArrayBuffer [72, 105]) \<and>
   audioFromResponse example_runtime
     (JObj [(''type'', JStr ''audio''), (''data'', JStr ''SGk='')]) =
     Returns (JArrayBuffer [72, 105]) \<and>
   audioFromResponse example_runtime
     (JObj [(''payload'', JObj [(''audio'', JArr [JNum 72, JNum 105])])]) =
     Returns (JArrayBuffer [72, 105]) \<and>
   audioFromResponse example_runtime
     (JObj [(''value'',
        JObj [(''type'', JStr ''Buffer''), (''data'', JArr [JNum 72, JNum 105])])]) =
     Returns (JArrayBuffer [72, 105])"
proof -
  let ?b = "[72, 105] :: bytes"
  have bytes: "\<forall>x\<in>set ?b. x < 256" by simp
  have ne: "?b \<noteq> []" by simp
  have enc: "audio_encodings ?b =
      [JArrayBuffer ?b, JUint8Array ?b 0 2, JStr ''SGk='', JArr [JNum 72, JNum 105],
       JObj [(''type'', JStr ''Buffer''), (''data'', JArr [JNum 72, JNum 105])]]"
    by (simp add: audio_encodings_def byte_array_def base64_char_def base64_alphabet_def)
  have slot:
    "audio_slot (JObj [(''audio'', JArrayBuffer ?b)]) \<in> set (audio_encodings ?b)"
    "audio_slot (JObj [(''type'', JStr ''audio''), (''data'', JStr ''SGk='')])
       \<in> set (audio_encodings ?b)"
    "audio_slot (JObj [(''payload'', JObj [(''audio'', JArr [JNum 72, JNum 105])])])
       \<in> set (audio_encodings ?b)"
    "audio_slot (JObj [(''value'',
        JObj [(''type'', JStr ''Buffer''), (''data'', JArr [JNum 72, JNum 105])])])
       \<in> set (audio_encodings ?b)"
    unfolding enc by (simp_all add: audio_slot_def coalesce_def oget_def nullish_def)
  show ?thesis
    using audioFromResponse_encodings [OF bytes ne _ slot(1), of example_runtime]
      audioFromResponse_encodings [OF bytes ne _ slot(2), of example_runtime]
      audioFromResponse_encodings [OF bytes ne _ slot(3), of example_runtime]
      audioFromResponse_encodings [OF bytes ne _ slot(4), of example_runtime]
    by simp
qed

text \<open>
  C3 as stated fails on the empty byte sequence: its base64 encoding is the empty string,
  which is falsy, so no audio is extracted, while the empty array gives an empty buffer.
\<close>

theorem audioFromResponse_empty_counterexample:
  "audioFromResponse example_runtime (JObj [(''audio'', JStr (base64_encode []))]) =
     Returns JNull \<and>
   audioFromResponse example_runtime (JObj [(''audio'', byte_array [])]) =
     Returns (JArrayBuffer [])"
  by (simp add: audioFromResponse_def audio_slot_def coalesce_def nullish_def byte_array_def
      new_Uint8Array_def)

section \<open>Properties of the aggregator\<close>

subsection \<open>The invariant\<close>

lemma map_replace_last:
  assumes "distinct (map f xs)" and "xs \<noteq> []"
  shows "map (\<lambda>x. if f x = f (last xs) then u else x) xs = butlast xs @ [u]"
proof (cases xs rule: rev_cases)
  case Nil
  with assms(2) show ?thesis by simp
next
  case (snoc ys y)
  from assms(1) have "f y \<notin> f ` set ys" unfolding snoc by simp
  then have "\<forall>x\<in>set ys. f x \<noteq> f y" by (metis imageI)
  then have "map (\<lambda>x. if f x = f y then u else x) ys = ys" by (simp add: map_idI)
  then show ?thesis by (simp add: snoc)
qed

lemma new_id_fresh:
  assumes "inj (new_id env)"
    and "list_all (\<lambda>m. msg_id m \<in> set (map (new_id env) [0..<n])) ms"
  shows "new_id env n \<notin> set (map msg_id ms)"
proof
  assume "new_id env n \<in> set (map msg_id ms)"
  then obtain m where m: "m \<in> set ms" and eq: "msg_id m = new_id env n" by auto
  from assms(2) m have "msg_id m \<in> set (map (new_id env) [0..<n])"
    by (simp add: list_all_iff)
  then obtain k where "k < n" and "msg_id m = new_id env k" by auto
  with eq assms(1) show False by (auto dest: injD)
qed

lemma ids_drawn_mono:
  assumes "list_all (\<lambda>m. msg_id m \<in> set (map (new_id env) [0..<n])) ms"
  shows "list_all (\<lambda>m. msg_id m \<in> set (map (new_id env) [0..<Suc n])) ms"
  using assms by (auto simp: list_all_iff)

lemma ensure_inv:
  assumes "inj (new_id env)" and "aggregator_inv env st"
  shows "aggregator_inv env (ensureIncomingMessage env st) \<and>
         finalized (ensureIncomingMessage env st) = finalized st \<and>
         incomingMessageRef (ensureIncomingMessage env st) \<noteq> None"
proof (cases "incomingMessageRef st")
  case None
  from assms(2) have ids: "list_all (\<lambda>m. msg_id m \<in> set (map (new_id env) [0..<ids_drawn st]))
      (chatMessages st)" and d: "distinct (map msg_id (chatMessages st))"
    by (simp_all add: aggregator_inv_def)
  have fresh: "new_id env (ids_drawn st) \<notin> set (map msg_id (chatMessages st))"
    by (rule new_id_fresh [OF assms(1) ids])
  show ?thesis
    using ids_drawn_mono [OF ids] d fresh None
    by (simp add: ensureIncomingMessage_def aggregator_inv_def finalized_def Let_def)
next
  case (Some m)
  with assms(2) show ?thesis by (simp add: ensureIncomingMessage_def)
qed

lemma update_open_inv:
  assumes "aggregator_inv env st" and "incomingMessageRef st = Some current"
    and "msg_id (updates current) = msg_id current"
    and "msg_role (updates current) = msg_role current"
  shows "aggregator_inv env (updateIncomingMessage env updates st) \<and>
         finalized (updateIncomingMessage env updates st) = finalized st \<and>
         incomingMessageRef (updateIncomingMessage env updates st) = Some (updates current) \<and>
         chatMessages (updateIncomingMessage env updates st) =
           butlast (chatMessages st) @ [updates current]"
proof -
  from assms(1,2) have ids: "list_all (\<lambda>m. msg_id m \<in> set (map (new_id env) [0..<ids_drawn st]))
      (chatMessages st)" and d: "distinct (map msg_id (chatMessages st))"
    and ne: "chatMessages st \<noteq> []" and l: "last (chatMessages st) = current"
    and r: "msg_role current = Role_model"
    by (simp_all add: aggregator_inv_def)
  from ne l obtain ys where ys: "chatMessages st = ys @ [current]"
    by (metis append_butlast_last_id)
  have m: "map (\<lambda>item. if msg_id item = msg_id (updates current) then updates current else item)
      (chatMessages st) = butlast (chatMessages st) @ [updates current]"
    using map_replace_last [OF d ne, of "updates current"] by (simp add: l assms(3))
  have st': "updateIncomingMessage env updates st =
      st \<lparr> incomingMessageRef := Some (updates current),
            chatMessages := butlast (chatMessages st) @ [updates current] \<rparr>"
    by (simp add: updateIncomingMessage_def assms(2) Let_def m)
  show ?thesis
    unfolding st' using ids d r assms(2,3,4)
    by (simp add: aggregator_inv_def finalized_def ys)
qed


lemma update_inv:
  assumes "inj (new_id env)" and "aggregator_inv env st"
    and "\<And>m. msg_id (updates m) = msg_id m" and "\<And>m. msg_role (updates m) = msg_role m"
  shows "aggregator_inv env (updateIncomingMessage env updates st) \<and>
         finalized (updateIncomingMessage env updates st) = finalized st"
proof (cases "incomingMessageRef st")
  case None
  let ?st1 = "ensureIncomingMessage env st"
  from ensure_inv [OF assms(1,2)] obtain current where
    inv1: "aggregator_inv env ?st1" and fin1: "finalized ?st1 = finalized st"
    and cur: "incomingMessageRef ?st1 = Some current"
    by auto
  have eq: "updateIncomingMessage env updates st = updateIncomingMessage env updates ?st1"
    by (simp add: updateIncomingMessage_def None cur)
  from update_open_inv [where updates = updates, OF inv1 cur assms(3) assms(4)] fin1
  show ?thesis
    by (simp add: eq)
next
  case (Some current)
  from update_open_inv [where updates = updates, OF assms(2) Some assms(3) assms(4)]
  show ?thesis by simp
qed

lemma finalize_chat:
  assumes "aggregator_inv env st"
  shows "finalizeIncomingMessage st =
           st \<lparr> chatMessages := chatMessages st, incomingMessageRef := None,
                 currentSpeaker :=
                   (case incomingMessageRef st of None \<Rightarrow> currentSpeaker st
                    | Some m \<Rightarrow> Some user_waiting) \<rparr>"
proof (cases "incomingMessageRef st")
  case None
  then show ?thesis by (simp add: finalizeIncomingMessage_def)
next
  case (Some current)
  with assms have d: "distinct (map msg_id (chatMessages st))"
    and ne: "chatMessages st \<noteq> []" and l: "last (chatMessages st) = current"
    by (simp_all add: aggregator_inv_def)
  have "map (\<lambda>item. if msg_id item = msg_id current then current else item) (chatMessages st) =
      butlast (chatMessages st) @ [current]"
    using map_replace_last [OF d ne, of current] by (simp add: l)
  also have "\<dots> = chatMessages st" using ne by (simp add: l [symmetric])
  finally show ?thesis by (simp add: finalizeIncomingMessage_def Some)
qed

lemma prefix_butlast_self: "prefix (butlast xs) xs"
  by (metis append_butlast_last_id butlast.simps(1) prefixI prefix_order.order_refl)

lemma finalized_prefix_chat: "prefix (finalized st) (chatMessages st)"
  by (simp add: finalized_def prefix_butlast_self split: option.splits)

lemma finalize_inv:
  assumes "aggregator_inv env st"
  shows "aggregator_inv env (finalizeIncomingMessage st) \<and>
         prefix (finalized st) (finalized (finalizeIncomingMessage st)) \<and>
         incomingMessageRef (finalizeIncomingMessage st) = None"
  using assms finalized_prefix_chat [of st]
  by (simp add: finalize_chat [OF assms] aggregator_inv_def finalized_def split: option.splits)

lemma playAudio_inv:
  assumes "aggregator_inv env st"
  shows "aggregator_inv env (state_of (playAudio env b st)) \<and>
         finalized (state_of (playAudio env b st)) = finalized st \<and>
         incomingMessageRef (state_of (playAudio env b st)) = incomingMessageRef st \<and>
         chatMessages (state_of (playAudio env b st)) = chatMessages st"
  using assms
  by (simp add: playAudio_def aggregator_inv_def finalized_def Let_def split: option.splits)

lemma speaker_inv:
  assumes "aggregator_inv env st"
  shows "aggregator_inv env (st \<lparr> currentSpeaker := s \<rparr>) \<and>
         finalized (st \<lparr> currentSpeaker := s \<rparr>) = finalized st"
  using assms by (simp add: aggregator_inv_def finalized_def split: option.splits)


lemma keeps_refl: "aggregator_inv env st \<Longrightarrow> keeps env st st"
  by (simp add: keeps_def)

lemma keeps_trans: "keeps env a b \<Longrightarrow> keeps env b c \<Longrightarrow> keeps env a c"
  by (auto simp: keeps_def)

lemma keeps_inv: "keeps env a b \<Longrightarrow> aggregator_inv env b"
  by (simp add: keeps_def)

lemma keeps_speaker:
  "aggregator_inv env st \<Longrightarrow> keeps env st (st \<lparr> currentSpeaker := s \<rparr>)"
  using speaker_inv [of env st s] by (simp add: keeps_def)

lemma keeps_ensure:
  "inj (new_id env) \<Longrightarrow> aggregator_inv env st \<Longrightarrow> keeps env st (ensureIncomingMessage env st)"
  using ensure_inv [of env st] by (simp add: keeps_def)

lemma keeps_update:
  assumes "inj (new_id env)" and "aggregator_inv env st"
    and "\<And>m. msg_id (updates m) = msg_id m" and "\<And>m. msg_role (updates m) = msg_role m"
  shows "keeps env st (updateIncomingMessage env updates st)"
  using update_inv [where updates = updates, OF assms] by (simp add: keeps_def)

lemma keeps_finalize:
  "aggregator_inv env st \<Longrightarrow> keeps env st (finalizeIncomingMessage st)"
  using finalize_inv [of env st] by (simp add: keeps_def)

lemma keeps_playAudio:
  "aggregator_inv env st \<Longrightarrow> keeps env st (state_of (playAudio env b st))"
  using playAudio_inv [of env st b] by (simp add: keeps_def)

lemma keeps_and_next:
  assumes "keeps env st (state_of r)"
    and "\<And>st1. r = Done st1 \<Longrightarrow> keeps env st1 (state_of (f st1))"
  shows "keeps env st (state_of (and_next r f))"
proof (cases r)
  case (Threw st1)
  with assms(1) show ?thesis by simp
next
  case (Done st1)
  with assms(1) have "keeps env st st1" by simp
  from keeps_trans [OF this assms(2) [OF Done]] show ?thesis by (simp add: Done)
qed

lemma keeps_append_response_text:
  assumes "inj (new_id env)" and "aggregator_inv env st"
  shows "keeps env st (state_of (append_response_text rt env txt st))"
proof -
  let ?a = "st \<lparr> currentSpeaker := Some model \<rparr>"
  let ?b = "ensureIncomingMessage env ?a"
  have 1: "keeps env st ?a" by (rule keeps_speaker [OF assms(2)])
  have 2: "keeps env ?a ?b" by (rule keeps_ensure [OF assms(1) keeps_inv [OF 1]])
  have 12: "keeps env st ?b" by (rule keeps_trans [OF 1 2])
  have "keeps env ?b (updateIncomingMessage env (\<lambda>m. m \<lparr> msg_content := c \<rparr>) ?b)" for c
    by (intro keeps_update [OF assms(1) keeps_inv [OF 2]]) simp_all
  from keeps_trans [OF 12 this]
  have 3: "keeps env st (updateIncomingMessage env (\<lambda>m. m \<lparr> msg_content := c \<rparr>) ?b)" for c .
  show ?thesis
    unfolding append_response_text_def Let_def
    using 12 3 by (simp split: attempt.splits)
qed

lemma keeps_append_response_audio:
  assumes "inj (new_id env)" and "aggregator_inv env st"
  shows "keeps env st (state_of (append_response_audio env b st))"
proof -
  let ?a = "st \<lparr> currentSpeaker := Some model \<rparr>"
  let ?b = "ensureIncomingMessage env ?a"
  have 1: "keeps env st ?a" by (rule keeps_speaker [OF assms(2)])
  have 2: "keeps env ?a ?b" by (rule keeps_ensure [OF assms(1) keeps_inv [OF 1]])
  have 3: "keeps env ?b (updateIncomingMessage env (\<lambda>m. m \<lparr> msg_audio := Some a \<rparr>) ?b)" for a
    by (intro keeps_update [OF assms(1) keeps_inv [OF 2]]) simp_all
  have 4: "keeps env (updateIncomingMessage env (\<lambda>m. m \<lparr> msg_audio := Some a \<rparr>) ?b)
      (state_of (playAudio env b
         (updateIncomingMessage env (\<lambda>m. m \<lparr> msg_audio := Some a \<rparr>) ?b)))" for a
    by (rule keeps_playAudio [OF keeps_inv [OF 3]])
  show ?thesis
    unfolding append_response_audio_def Let_def
    by (rule keeps_trans [OF 1], rule keeps_trans [OF 2], rule keeps_trans [OF 3], rule 4)
qed

lemma keeps_response_text_step:
  assumes "inj (new_id env)" and "aggregator_inv env st"
  shows "keeps env st (state_of (response_text_step rt env response st))"
  unfolding response_text_step_def
  by (simp add: keeps_append_response_text [OF assms] keeps_refl [OF assms(2)]
      split: attempt.splits)

lemma keeps_response_audio_step:
  assumes "inj (new_id env)" and "aggregator_inv env st"
  shows "keeps env st (state_of (response_audio_step rt env response st))"
  unfolding response_audio_step_def
  by (simp add: keeps_append_response_audio [OF assms] keeps_refl [OF assms(2)]
      split: attempt.splits js.splits)

lemma keeps_completion_step:
  assumes "aggregator_inv env st"
  shows "keeps env st (state_of (completion_step rt v st))"
  unfolding completion_step_def
  by (simp add: keeps_finalize [OF assms] keeps_refl [OF assms] split: attempt.splits)

lemma keeps_handle_response:
  assumes "inj (new_id env)" and "aggregator_inv env st"
  shows "keeps env st (state_of (handle_response rt env response st))"
proof (cases "truthy response")
  case False
  then show ?thesis by (simp add: handle_response_def keeps_refl [OF assms(2)])
next
  case True
  have "keeps env st
     (state_of (and_next (response_text_step rt env response st) (\<lambda>st1.
           and_next (response_audio_step rt env response st1) (\<lambda>st2.
           completion_step rt response st2))))"
  proof (rule keeps_and_next [OF keeps_response_text_step [OF assms]])
    fix st1
    assume "response_text_step rt env response st = Done st1"
    with keeps_response_text_step [OF assms, of rt response]
    have inv1: "aggregator_inv env st1" by (simp add: keeps_def)
    show "keeps env st1
       (state_of (and_next (response_audio_step rt env response st1)
          (completion_step rt response)))"
    proof (rule keeps_and_next [OF keeps_response_audio_step [OF assms(1) inv1]])
      fix st2
      assume "response_audio_step rt env response st1 = Done st2"
      with keeps_response_audio_step [OF assms(1) inv1, of rt response]
      have "aggregator_inv env st2" by (simp add: keeps_def)
      then show "keeps env st2 (state_of (completion_step rt response st2))"
        by (rule keeps_completion_step)
    qed
  qed
  with True show ?thesis by (simp add: handle_response_def)
qed

lemma keeps_forEach_response:
  assumes "inj (new_id env)" and "aggregator_inv env st"
  shows "keeps env st (state_of (forEach_response rt env responses st))"
  using assms(2)
proof (induction responses arbitrary: st)
  case Nil
  then show ?case by (simp add: keeps_refl)
next
  case (Cons response rest)
  have "keeps env st
     (state_of (and_next (handle_response rt env response st) (forEach_response rt env rest)))"
  proof (rule keeps_and_next [OF keeps_handle_response [OF assms(1) Cons.prems]])
    fix st1
    assume "handle_response rt env response st = Done st1"
    with keeps_handle_response [OF assms(1) Cons.prems, of rt response]
    have "aggregator_inv env st1" by (simp add: keeps_def)
    then show "keeps env st1 (state_of (forEach_response rt env rest st1))"
      by (rule Cons.IH)
  qed
  then show ?case by simp
qed

lemma keeps_handleAgentResponse:
  assumes "inj (new_id env)" and "aggregator_inv env st"
  shows "keeps env st (state_of (handleAgentResponse rt env payload st))"
proof (cases "extractResponses payload = []")
  case True
  then show ?thesis by (simp add: handleAgentResponse_def keeps_refl [OF assms(2)])
next
  case False
  have "keeps env st
     (state_of (and_next (forEach_response rt env (extractResponses payload) st)
        (completion_step rt payload)))"
  proof (rule keeps_and_next [OF keeps_forEach_response [OF assms]])
    fix st1
    assume "forEach_response rt env (extractResponses payload) st = Done st1"
    with keeps_forEach_response [OF assms, of rt "extractResponses payload"]
    have "aggregator_inv env st1" by (simp add: keeps_def)
    then show "keeps env st1 (state_of (completion_step rt payload st1))"
      by (rule keeps_completion_step)
  qed
  with False show ?thesis by (simp add: handleAgentResponse_def)
qed

lemma keeps_handleTranscriptMessage:
  assumes "inj (new_id env)" and "aggregator_inv env st"
  shows "keeps env st (state_of (handleTranscriptMessage rt env payload st))"
proof -
  from assms(2) have ids: "list_all (\<lambda>m. msg_id m \<in> set (map (new_id env) [0..<ids_drawn st]))
      (chatMessages st)" and d: "distinct (map msg_id (chatMessages st))"
    by (simp_all add: aggregator_inv_def)
  have fresh: "new_id env (ids_drawn st) \<notin> set (map msg_id (chatMessages st))"
    by (rule new_id_fresh [OF assms(1) ids])
  have user_case: "keeps env st
      (st \<lparr> currentSpeaker := Some user, scheduledAudioSourcesRef := [], scheduledStartRef := 0,
            incomingMessageRef := None,
            chatMessages := chatMessages st @
              [\<lparr> msg_id = new_id env (ids_drawn st), msg_role = Role_user,
                 msg_content = c, msg_audio = None, msg_voice = None \<rparr>],
            ids_drawn := Suc (ids_drawn st) \<rparr>)" for c
    using ids_drawn_mono [OF ids] d fresh finalized_prefix_chat [of st]
    by (simp add: keeps_def aggregator_inv_def finalized_def)
  have opened: "keeps env st (ensureIncomingMessage env st)"
    by (rule keeps_ensure [OF assms])
  have model_case: "keeps env st
      (updateIncomingMessage env (\<lambda>m. m \<lparr> msg_content := c \<rparr>) (ensureIncomingMessage env st))"
    for c
    by (intro keeps_trans [OF opened] keeps_update [OF assms(1) keeps_inv [OF opened]])
       simp_all
  show ?thesis
    unfolding handleTranscriptMessage_def Let_def clearScheduledAudio_def
    using user_case model_case opened keeps_refl [OF assms(2)]
    by (simp split: attempt.splits)
qed

lemma keeps_handleSocketClose:
  assumes "aggregator_inv env st"
  shows "keeps env st (handleSocketClose st)"
  using assms finalized_prefix_chat [of st]
  by (simp add: handleSocketClose_def clearScheduledAudio_def keeps_def aggregator_inv_def
      finalized_def)

lemma keeps_updateVoice:
  assumes "aggregator_inv env st"
  shows "keeps env st (updateVoice newVoice st)"
  using assms finalized_prefix_chat [of st]
  by (simp add: updateVoice_def keeps_def aggregator_inv_def finalized_def)

text \<open>
  C10. Let the identifiers drawn from the environment be pairwise different. Then every
  operation (ensure, update, finalize, transcript handling, agent-response handling, a
  binary audio frame, socket close, a change of voice) keeps the invariant: at most one model message is
  open, and an open message is the last element of the conversation. The finalized
  messages of before are a prefix of the finalized messages of after: no later delta
  reopens or changes them.
\<close>

theorem aggregator_invariant_kept:
  assumes "inj (new_id env)" and "aggregator_inv env st"
  shows "aggregator_inv env (perform rt env op st) \<and>
         prefix (finalized st) (finalized (perform rt env op st))"
proof -
  have "keeps env st (perform rt env op st)"
  proof (cases op)
    case Ensure
    then show ?thesis by (simp add: keeps_ensure [OF assms])
  next
    case (UpdateContent c)
    then show ?thesis by (simp add: keeps_update [OF assms])
  next
    case (UpdateAudio a)
    then show ?thesis by (simp add: keeps_update [OF assms])
  next
    case Finalize
    then show ?thesis by (simp add: keeps_finalize [OF assms(2)])
  next
    case (TranscriptMessage payload)
    then show ?thesis by (simp add: keeps_handleTranscriptMessage [OF assms])
  next
    case (AgentResponse payload)
    then show ?thesis by (simp add: keeps_handleAgentResponse [OF assms])
  next
    case (BinaryAudio b)
    then show ?thesis by (simp add: keeps_append_response_audio [OF assms])
  next
    case SocketClose
    then show ?thesis by (simp add: keeps_handleSocketClose [OF assms(2)])
  next
    case (UpdateVoice newVoice)
    then show ?thesis by (simp add: keeps_updateVoice [OF assms(2)])
  qed
  then show ?thesis by (simp add: keeps_def)
qed

lemma inj_example_ids: "inj (new_id example_environment)"
  by (simp add: example_environment_def inj_def)

lemma busy_state_inv: "aggregator_inv example_environment busy_state"
  by (simp add: aggregator_inv_def busy_state_def initial_state_def example_environment_def
      eval_nat_numeral)

lemma busy_state_finalized:
  "finalized busy_state =
     [\<lparr> msg_id = ''i'', msg_role = Role_user, msg_content = JStr ''Hi'',
        msg_audio = None, msg_voice = None \<rparr>]"
  by (simp add: finalized_def busy_state_def initial_state_def)

theorem aggregator_invariant_kept_witness:
  "inj (new_id example_environment) \<and>
   aggregator_inv example_environment busy_state \<and>
   aggregator_inv example_environment
     (perform example_runtime example_environment
        (AgentResponse (JObj [(''response'', JObj [(''type'', JStr ''text''), (''text'', JStr ''there'')])]))
        busy_state) \<and>
   prefix [\<lparr> msg_id = ''i'', msg_role = Role_user, msg_content = JStr ''Hi'',
              msg_audio = None, msg_voice = None \<rparr>]
     (finalized
        (perform example_runtime example_environment
           (AgentResponse (JObj [(''response'', JObj [(''type'', JStr ''text''), (''text'', JStr ''there'')])]))
           busy_state))"
  using aggregator_invariant_kept [OF inj_example_ids busy_state_inv, of example_runtime
      "AgentResponse (JObj [(''response'', JObj [(''type'', JStr ''text''), (''text'', JStr ''there'')])])"]
    inj_example_ids busy_state_inv
  by (simp only: busy_state_finalized simp_thms)

text \<open>
  C8. Take a transcript payload from which the three classifier calls return: extractable
  (truthy) text, a speaker that resolves to the user (or to nothing, which counts as the
  user) and a true finality flag. From every state, in particular one with an open model
  message and a non-empty playback schedule, handling it ends without an exception and
  leaves no open message, an empty schedule with its cursor at 0, and the conversation of
  before followed by one new user message with the transcript text.
\<close>

theorem final_user_transcript:
  assumes "extractTranscriptText rt payload = Returns txt" and "truthy txt"
    and "parseSpeaker rt payload = Returns None \<or> parseSpeaker rt payload = Returns (Some user)"
    and "isFinalTranscript rt payload = Returns True"
  shows "\<exists>st'. handleTranscriptMessage rt env payload st = Done st' \<and>
           incomingMessageRef st' = None \<and>
           scheduledAudioSourcesRef st' = [] \<and>
           scheduledStartRef st' = 0 \<and>
           chatMessages st' =
             chatMessages st @
               [\<lparr> msg_id = new_id env (ids_drawn st), msg_role = Role_user,
                  msg_content = txt, msg_audio = None, msg_voice = None \<rparr>]"
  using assms
  by (auto simp: handleTranscriptMessage_def Let_def clearScheduledAudio_def)

theorem final_user_transcript_witness:
  "incomingMessageRef busy_state \<noteq> None \<and> scheduledAudioSourcesRef busy_state \<noteq> [] \<and>
   (\<exists>st'. handleTranscriptMessage example_runtime example_environment
      (JObj [(''type'', JStr ''transcript''), (''transcript'', JStr ''hello''),
             (''speaker'', JStr ''user''), (''is_final'', JBool True)]) busy_state = Done st' \<and>
     incomingMessageRef st' = None \<and>
     scheduledAudioSourcesRef st' = [] \<and>
     scheduledStartRef st' = 0 \<and>
     chatMessages st' =
       [\<lparr> msg_id = ''i'', msg_role = Role_user, msg_content = JStr ''Hi'',
          msg_audio = None, msg_voice = None \<rparr>,
        \<lparr> msg_id = ''ii'', msg_role = Role_model, msg_content = JStr ''Hello'',
          msg_audio = Some [0, 0, 1, 0], msg_voice = Some ''aura-asteria-en'' \<rparr>,
        \<lparr> msg_id = ''iii'', msg_role = Role_user, msg_content = JStr ''hello'',
          msg_audio = None, msg_voice = None \<rparr>])"
proof -
  let ?p = "JObj [(''type'', JStr ''transcript''), (''transcript'', JStr ''hello''),
             (''speaker'', JStr ''user''), (''is_final'', JBool True)]"
  have tx: "extractTranscriptText example_runtime ?p = Returns (JStr ''hello'')"
    by (simp add: extractTranscriptText_def)
  have t: "truthy (JStr ''hello'')" by simp
  have s: "parseSpeaker example_runtime ?p = Returns None \<or>
           parseSpeaker example_runtime ?p = Returns (Some user)"
    by (simp add: parseSpeaker_def or_js_def oget_def nullish_def Let_def toLowerCase_def
        lower_char_def)
  have f: "isFinalTranscript example_runtime ?p = Returns True"
    by (simp add: isFinalTranscript_def or_js_def)
  have b: "incomingMessageRef busy_state \<noteq> None" "scheduledAudioSourcesRef busy_state \<noteq> []"
    "chatMessages busy_state =
      [\<lparr> msg_id = ''i'', msg_role = Role_user, msg_content = JStr ''Hi'',
        msg_audio = None, msg_voice = None \<rparr>,
      \<lparr> msg_id = ''ii'', msg_role = Role_model, msg_content = JStr ''Hello'',
        msg_audio = Some [0, 0, 1, 0], msg_voice = Some ''aura-asteria-en'' \<rparr>]"
    "new_id example_environment (ids_drawn busy_state) = ''iii''"
    by (simp_all add: busy_state_def initial_state_def example_environment_def eval_nat_numeral)
  from final_user_transcript [OF tx t s f, of example_environment busy_state] b
  show ?thesis by simp
qed

text \<open>
  Where \<^verbatim>\<open>String(speaker)\<close> throws, the handler stops before it changes anything: the
  payload is not a transcript that the classifier resolves to the user.
\<close>

lemma transcript_speaker_throws:
  "parseSpeaker example_runtime
     (JObj [(''transcript'', JStr ''hello''), (''is_final'', JBool True),
            (''speaker'', JObj [(''toString'', JNum 1)])]) = Throws \<and>
   handleTranscriptMessage example_runtime example_environment
     (JObj [(''transcript'', JStr ''hello''), (''is_final'', JBool True),
            (''speaker'', JObj [(''toString'', JNum 1)])]) busy_state = Threw busy_state"
  by (simp add: handleTranscriptMessage_def extractTranscriptText_def parseSpeaker_def
      or_js_def oget_def nullish_def Let_def has_own_def)

subsection \<open>The order of the events of a payload\<close>

lemma and_next_assoc: "and_next (and_next r f) g = and_next r (\<lambda>st. and_next (f st) g)"
  by (cases r) simp_all

lemma and_next_Done: "and_next r Done = r"
  by (cases r) simp_all

lemma and_next_cong: "r = r' \<Longrightarrow> (\<And>st. f st = g st) \<Longrightarrow> and_next r f = and_next r' g"
  by (cases r') simp_all

lemma aggregate_events_append:
  "aggregate_events rt env (xs @ ys) st =
     and_next (aggregate_events rt env xs st) (aggregate_events rt env ys)"
  by (induction xs arbitrary: st) (simp_all add: and_next_assoc cong: and_next_cong)

lemma aggregate_then_events:
  "aggregate rt env (then_events a b) st = and_next (aggregate rt env a st) (aggregate rt env b)"
proof (cases a)
  case (Interrupted xs)
  then show ?thesis by (cases "aggregate_events rt env xs st") simp_all
next
  case (Events xs)
  then show ?thesis
    by (cases b) (simp_all add: aggregate_events_append and_next_assoc cong: and_next_cong)
qed

lemma then_events_assoc:
  "then_events (then_events a b) c = then_events a (then_events b c)"
  by (cases a; cases b; cases c) simp_all

lemma then_events_empty: "then_events (Events []) c = c" "then_events c (Events []) = c"
  by (cases c; simp)+

lemma events_of_then_events:
  "events_of (then_events a b) = events_of a @ (if interrupted a then [] else events_of b)"
  "interrupted (then_events a b) = (interrupted a \<or> interrupted b)"
  by (cases a; cases b; simp)+

lemma classify_all_append:
  "classify_all rt (xs @ ys) = then_events (classify_all rt xs) (classify_all rt ys)"
  by (induction xs) (simp_all add: then_events_empty then_events_assoc)

lemma response_text_step_aggregate:
  "response_text_step rt env response st = aggregate rt env (text_events rt response) st"
  by (simp add: response_text_step_def text_events_def and_next_Done split: attempt.splits
      cong: and_next_cong)

lemma response_audio_step_aggregate:
  "response_audio_step rt env response st = aggregate rt env (audio_events rt response) st"
  by (simp add: response_audio_step_def audio_events_def and_next_Done
      split: attempt.splits js.splits cong: and_next_cong)

lemma completion_step_aggregate:
  "completion_step rt v st = aggregate rt env (completion_events rt v) st"
  by (simp add: completion_step_def completion_events_def split: attempt.splits)

lemma handle_response_aggregate:
  "handle_response rt env response st = aggregate rt env (classify_response rt response) st"
proof (cases "truthy response")
  case False
  then show ?thesis by (simp add: handle_response_def classify_response_def)
next
  case True
  have "(\<lambda>st1. and_next (response_audio_step rt env response st1) (completion_step rt response)) =
        aggregate rt env
          (then_events (audio_events rt response) (completion_events rt response))"
    by (rule ext)
       (simp add: aggregate_then_events response_audio_step_aggregate
          completion_step_aggregate [of rt response _ env, abs_def])
  with True show ?thesis
    by (simp add: handle_response_def classify_response_def aggregate_then_events
        response_text_step_aggregate)
qed

lemma forEach_response_aggregate:
  "forEach_response rt env responses st = aggregate rt env (classify_all rt responses) st"
proof (induction responses arbitrary: st)
  case Nil
  then show ?case by simp
next
  case (Cons response rest)
  have "forEach_response rt env rest = aggregate rt env (classify_all rt rest)"
    by (rule ext) (rule Cons.IH)
  then show ?case by (simp add: aggregate_then_events handle_response_aggregate)
qed

lemma data_of_classify_all:
  "\<not> interrupted (classify_all rt responses) \<Longrightarrow>
   filter is_data (events_of (classify_all rt responses)) =
     concat (map (\<lambda>response. filter is_data (events_of (classify_response rt response)))
       responses)"
  by (induction responses) (simp_all add: events_of_then_events)

lemma completion_events_shape:
  "events_of (completion_events rt v) = [] \<or> events_of (completion_events rt v) = [TurnComplete]"
  by (simp add: completion_events_def split: attempt.splits)

lemma text_events_shape:
  "events_of (text_events rt response) = [] \<or>
   (\<exists>txt. events_of (text_events rt response) = [ResponseTextDelta txt])"
  by (simp add: text_events_def split: attempt.splits)

lemma audio_events_shape:
  "events_of (audio_events rt response) = [] \<or>
   (\<exists>audioBuffer. events_of (audio_events rt response) = [ResponseAudioDelta audioBuffer])"
  by (simp add: audio_events_def split: attempt.splits js.splits)

text \<open>
  C4, as the code has it. \<^verbatim>\<open>handleAgentResponse\<close> does to the state what the
  aggregator does with the classification of the payload, whose events come in this order:
  for each sub-object in turn its text delta (if any), then its audio delta (if any), then
  a \<^verbatim>\<open>TurnComplete\<close> if that sub-object signals completion; and, when the payload has a
  sub-object and signals completion itself, a last \<^verbatim>\<open>TurnComplete\<close>. A
  \<^verbatim>\<open>TypeError\<close> in a conversion ends the sequence where it occurs. So the data events
  come in the order of the sub-objects, the \<^verbatim>\<open>TurnComplete\<close> of the payload comes after
  every data event, and the \<^verbatim>\<open>TurnComplete\<close> of a sub-object comes after the data of
  that sub-object and before the events of the sub-objects that follow.
\<close>

theorem agent_response_events_in_order:
  "handleAgentResponse rt env payload st =
     aggregate rt env (classify_agent_response rt payload) st \<and>
   (\<forall>pre response post. extractResponses payload = pre @ response # post \<longrightarrow>
      classify_agent_response rt payload =
        then_events (classify_all rt pre)
          (then_events (classify_response rt response)
             (then_events (classify_all rt post) (completion_events rt payload)))) \<and>
   (\<forall>response. truthy response \<longrightarrow>
      classify_response rt response =
        then_events (text_events rt response)
          (then_events (audio_events rt response) (completion_events rt response)) \<and>
      (events_of (text_events rt response) = [] \<or>
       (\<exists>txt. events_of (text_events rt response) = [ResponseTextDelta txt])) \<and>
      (events_of (audio_events rt response) = [] \<or>
       (\<exists>audioBuffer. events_of (audio_events rt response) = [ResponseAudioDelta audioBuffer])) \<and>
      (events_of (completion_events rt response) = [] \<or>
       events_of (completion_events rt response) = [TurnComplete])) \<and>
   (\<not> interrupted (classify_agent_response rt payload) \<longrightarrow>
      filter is_data (events_of (classify_agent_response rt payload)) =
        concat (map (\<lambda>response. filter is_data (events_of (classify_response rt response)))
          (extractResponses payload))) \<and>
   (\<not> interrupted (classify_agent_response rt payload) \<and> extractResponses payload \<noteq> [] \<and>
    responseIsComplete rt payload = Returns True \<longrightarrow>
      last (events_of (classify_agent_response rt payload)) = TurnComplete)"
proof -
  have 1: "handleAgentResponse rt env payload st =
     aggregate rt env (classify_agent_response rt payload) st"
  proof (cases "extractResponses payload = []")
    case True
    then show ?thesis by (simp add: handleAgentResponse_def classify_agent_response_def)
  next
    case False
    have "completion_step rt payload = aggregate rt env (completion_events rt payload)"
      by (rule ext) (rule completion_step_aggregate)
    with False show ?thesis
      by (simp add: handleAgentResponse_def classify_agent_response_def Let_def
          aggregate_then_events forEach_response_aggregate)
  qed
  have 2: "\<forall>pre response post. extractResponses payload = pre @ response # post \<longrightarrow>
      classify_agent_response rt payload =
        then_events (classify_all rt pre)
          (then_events (classify_response rt response)
             (then_events (classify_all rt post) (completion_events rt payload)))"
    by (simp add: classify_agent_response_def classify_all_append then_events_assoc)
  have 3: "\<forall>response. truthy response \<longrightarrow>
      classify_response rt response =
        then_events (text_events rt response)
          (then_events (audio_events rt response) (completion_events rt response)) \<and>
      (events_of (text_events rt response) = [] \<or>
       (\<exists>txt. events_of (text_events rt response) = [ResponseTextDelta txt])) \<and>
      (events_of (audio_events rt response) = [] \<or>
       (\<exists>audioBuffer. events_of (audio_events rt response) = [ResponseAudioDelta audioBuffer])) \<and>
      (events_of (completion_events rt response) = [] \<or>
       events_of (completion_events rt response) = [TurnComplete])"
    using text_events_shape audio_events_shape completion_events_shape
    by (simp add: classify_response_def)
  have 4: "\<not> interrupted (classify_agent_response rt payload) \<longrightarrow>
      filter is_data (events_of (classify_agent_response rt payload)) =
        concat (map (\<lambda>response. filter is_data (events_of (classify_response rt response)))
          (extractResponses payload))"
  proof
    assume n: "\<not> interrupted (classify_agent_response rt payload)"
    show "filter is_data (events_of (classify_agent_response rt payload)) =
        concat (map (\<lambda>response. filter is_data (events_of (classify_response rt response)))
          (extractResponses payload))"
    proof (cases "extractResponses payload = []")
      case True
      then show ?thesis by (simp add: classify_agent_response_def)
    next
      case False
      with n have ni: "\<not> interrupted (classify_all rt (extractResponses payload))"
        by (simp add: classify_agent_response_def events_of_then_events)
      have "filter is_data (events_of (completion_events rt payload)) = []"
        using completion_events_shape [of rt payload] by auto
      with False ni show ?thesis
        by (simp add: classify_agent_response_def events_of_then_events data_of_classify_all)
    qed
  qed
  have 5: "\<not> interrupted (classify_agent_response rt payload) \<and>
      extractResponses payload \<noteq> [] \<and> responseIsComplete rt payload = Returns True \<longrightarrow>
      last (events_of (classify_agent_response rt payload)) = TurnComplete"
    by (simp add: classify_agent_response_def events_of_then_events completion_events_def)
  from 1 2 3 4 5 show ?thesis by blast
qed

subsection \<open>Examples\<close>

lemma initial_state_inv: "aggregator_inv example_environment initial_state"
  by (simp add: aggregator_inv_def initial_state_def)

lemma space_chars:
  "is_space (CHR '' '')" "\<not> is_space (CHR ''H'')" "\<not> is_space (CHR ''i'')"
  "\<not> is_space (CHR ''t'')" "\<not> is_space (CHR ''h'')" "\<not> is_space (CHR ''e'')"
  "\<not> is_space (CHR ''r'')" "\<not> is_space (CHR ''f'')" "\<not> is_space (CHR ''n'')"
  "\<not> is_space (CHR ''d'')"
  by (simp_all add: is_space_def)

lemma lower_text: "toLowerCase ''text'' = ''text''" "toLowerCase ''audio'' = ''audio''"
  "toLowerCase ''assistant'' = ''assistant''" "toLowerCase ''completed'' = ''completed''"
  by (simp_all add: toLowerCase_def lower_char_def)

theorem agent_response_events_in_order_witness:
  "extractResponses
     (JObj [(''type'', JStr ''agent-response''),
            (''responses'', JArr [JObj [(''type'', JStr ''text''), (''text'', JStr ''Hi'')],
                                  JObj [(''type'', JStr ''audio''), (''audio'', JArr [JNum 1, JNum 2])]]),
            (''status'', JStr ''completed'')]) =
     [JObj [(''type'', JStr ''text''), (''text'', JStr ''Hi'')]] @
       JObj [(''type'', JStr ''audio''), (''audio'', JArr [JNum 1, JNum 2])] # [] \<and>
   responseIsComplete example_runtime
     (JObj [(''type'', JStr ''agent-response''),
            (''responses'', JArr [JObj [(''type'', JStr ''text''), (''text'', JStr ''Hi'')],
                                  JObj [(''type'', JStr ''audio''), (''audio'', JArr [JNum 1, JNum 2])]]),
            (''status'', JStr ''completed'')]) = Returns True \<and>
   classify_agent_response example_runtime
     (JObj [(''type'', JStr ''agent-response''),
            (''responses'', JArr [JObj [(''type'', JStr ''text''), (''text'', JStr ''Hi'')],
                                  JObj [(''type'', JStr ''audio''), (''audio'', JArr [JNum 1, JNum 2])]]),
            (''status'', JStr ''completed'')]) =
     Events [ResponseTextDelta (JStr ''Hi''), ResponseAudioDelta [1, 2], TurnComplete] \<and>
   last (events_of (classify_agent_response example_runtime
     (JObj [(''type'', JStr ''agent-response''),
            (''responses'', JArr [JObj [(''type'', JStr ''text''), (''text'', JStr ''Hi'')],
                                  JObj [(''type'', JStr ''audio''), (''audio'', JArr [JNum 1, JNum 2])]]),
            (''status'', JStr ''completed'')]))) = TurnComplete \<and>
   truthy (JObj [(''type'', JStr ''audio''), (''audio'', JArr [JNum 1, JNum 2])]) \<and>
   classify_response example_runtime
     (JObj [(''type'', JStr ''audio''), (''audio'', JArr [JNum 1, JNum 2])]) =
     then_events
       (text_events example_runtime
          (JObj [(''type'', JStr ''audio''), (''audio'', JArr [JNum 1, JNum 2])]))
       (then_events
          (audio_events example_runtime
             (JObj [(''type'', JStr ''audio''), (''audio'', JArr [JNum 1, JNum 2])]))
          (completion_events example_runtime
             (JObj [(''type'', JStr ''audio''), (''audio'', JArr [JNum 1, JNum 2])]))) \<and>
   filter is_data (events_of (classify_agent_response example_runtime
     (JObj [(''type'', JStr ''agent-response''),
            (''responses'', JArr [JObj [(''type'', JStr ''text''), (''text'', JStr ''Hi'')],
                                  JObj [(''type'', JStr ''audio''), (''audio'', JArr [JNum 1, JNum 2])]]),
            (''status'', JStr ''completed'')]))) =
     [ResponseTextDelta (JStr ''Hi''), ResponseAudioDelta [1, 2]]"
proof -
  let ?r1 = "JObj [(''type'', JStr ''text''), (''text'', JStr ''Hi'')]"
  let ?r2 = "JObj [(''type'', JStr ''audio''), (''audio'', JArr [JNum 1, JNum 2])]"
  let ?p = "JObj [(''type'', JStr ''agent-response''), (''responses'', JArr [?r1, ?r2]),
                  (''status'', JStr ''completed'')]"
  have rs: "extractResponses ?p = [?r1] @ ?r2 # []"
    by (simp add: extractResponses_def)
  have ne: "extractResponses ?p \<noteq> []" unfolding rs by simp
  have c: "responseIsComplete example_runtime ?p = Returns True"
    by (simp add: responseIsComplete_def lower_text)
  have cp: "completion_events example_runtime ?p = Events [TurnComplete]"
    by (simp add: completion_events_def c)
  have e1: "classify_response example_runtime ?r1 = Events [ResponseTextDelta (JStr ''Hi'')]"
    by (simp add: classify_response_def text_events_def audio_events_def completion_events_def
        responseType_def coalesce_def nullish_def lower_text textFromResponse_def
        audioFromResponse_def audio_slot_def oget_def responseIsComplete_def)
  have e2: "classify_response example_runtime ?r2 = Events [ResponseAudioDelta [1, 2]]"
    by (simp add: classify_response_def text_events_def audio_events_def completion_events_def
        responseType_def coalesce_def nullish_def lower_text textFromResponse_def
        audioFromResponse_def audio_slot_def oget_def responseIsComplete_def
        new_Uint8Array_def ToUint8_def)
  note order = agent_response_events_in_order
    [of example_runtime example_environment ?p initial_state]
  from order rs have "classify_agent_response example_runtime ?p =
        then_events (classify_all example_runtime [?r1])
          (then_events (classify_response example_runtime ?r2)
             (then_events (classify_all example_runtime [])
                (completion_events example_runtime ?p)))"
    by blast
  then have ev: "classify_agent_response example_runtime ?p =
      Events [ResponseTextDelta (JStr ''Hi''), ResponseAudioDelta [1, 2], TurnComplete]"
    by (simp add: e1 e2 cp)
  then have ni: "\<not> interrupted (classify_agent_response example_runtime ?p)" by simp
  with order ne c have l: "last (events_of (classify_agent_response example_runtime ?p)) =
      TurnComplete"
    by blast
  have t2: "truthy ?r2" by simp
  with order have s2: "classify_response example_runtime ?r2 =
      then_events (text_events example_runtime ?r2)
        (then_events (audio_events example_runtime ?r2)
           (completion_events example_runtime ?r2))"
    by blast
  from order ni have "filter is_data (events_of (classify_agent_response example_runtime ?p)) =
      concat (map (\<lambda>response. filter is_data
                     (events_of (classify_response example_runtime response)))
        (extractResponses ?p))"
    by blast
  then have d: "filter is_data (events_of (classify_agent_response example_runtime ?p)) =
      [ResponseTextDelta (JStr ''Hi''), ResponseAudioDelta [1, 2]]"
    by (simp add: rs e1 e2)
  from rs c ev l t2 s2 d show ?thesis by (simp only: simp_thms)
qed

text \<open>
  C4 as stated fails: when the first of two sub-objects signals completion, the message is
  finalized before the text of the second arrives, which then opens a message of its own.
\<close>

theorem agent_response_completion_counterexample:
  "responseIsComplete example_runtime
     (JObj [(''type'', JStr ''text''), (''text'', JStr ''Hi''), (''done'', JBool True)]) =
     Returns True \<and>
   classify_agent_response example_runtime
     (JObj [(''type'', JStr ''agent-response''),
            (''responses'',
               JArr [JObj [(''type'', JStr ''text''), (''text'', JStr ''Hi''), (''done'', JBool True)],
                     JObj [(''type'', JStr ''text''), (''text'', JStr ''there'')]])]) =
     Events [ResponseTextDelta (JStr ''Hi''), TurnComplete, ResponseTextDelta (JStr ''there'')] \<and>
   handleAgentResponse example_runtime example_environment
     (JObj [(''type'', JStr ''agent-response''),
            (''responses'',
               JArr [JObj [(''type'', JStr ''text''), (''text'', JStr ''Hi''), (''done'', JBool True)],
                     JObj [(''type'', JStr ''text''), (''text'', JStr ''there'')]])])
     initial_state =
     Done (initial_state
       \<lparr> currentSpeaker := Some model,
         chatMessages :=
           [\<lparr> msg_id = ''i'', msg_role = Role_model, msg_content = JStr ''Hi'',
              msg_audio = None, msg_voice = Some ''aura-asteria-en'' \<rparr>,
            \<lparr> msg_id = ''ii'', msg_role = Role_model, msg_content = JStr ''there'',
              msg_audio = None, msg_voice = Some ''aura-asteria-en'' \<rparr>],
         incomingMessageRef :=
           Some \<lparr> msg_id = ''ii'', msg_role = Role_model, msg_content = JStr ''there'',
                  msg_audio = None, msg_voice = Some ''aura-asteria-en'' \<rparr>,
         ids_drawn := 2 \<rparr>)"
proof -
  let ?r1 = "JObj [(''type'', JStr ''text''), (''text'', JStr ''Hi''), (''done'', JBool True)]"
  let ?r2 = "JObj [(''type'', JStr ''text''), (''text'', JStr ''there'')]"
  let ?p = "JObj [(''type'', JStr ''agent-response''), (''responses'', JArr [?r1, ?r2])]"
  have rs: "extractResponses ?p = [?r1, ?r2]"
    by (simp add: extractResponses_def)
  have c: "responseIsComplete example_runtime ?r1 = Returns True"
    "responseIsComplete example_runtime ?r2 = Returns False"
    "responseIsComplete example_runtime ?p = Returns False"
    by (simp_all add: responseIsComplete_def)
  have t: "responseType example_runtime ?r1 = Returns ''text''"
    "responseType example_runtime ?r2 = Returns ''text''"
    "textFromResponse example_runtime ?r1 = Returns (JStr ''Hi'')"
    "textFromResponse example_runtime ?r2 = Returns (JStr ''there'')"
    "audioFromResponse example_runtime ?r1 = Returns JNull"
    "audioFromResponse example_runtime ?r2 = Returns JNull"
    by (simp_all add: responseType_def coalesce_def nullish_def
        lower_text textFromResponse_def audioFromResponse_def audio_slot_def oget_def)
  have ev: "classify_agent_response example_runtime ?p =
     Events [ResponseTextDelta (JStr ''Hi''), TurnComplete, ResponseTextDelta (JStr ''there'')]"
    by (simp add: classify_agent_response_def classify_response_def text_events_def
        audio_events_def completion_events_def rs c t)
  have h1: "handle_response example_runtime example_environment ?r1 initial_state =
      Done (initial_state
       \<lparr> currentSpeaker := Some user_waiting,
         chatMessages :=
           [\<lparr> msg_id = ''i'', msg_role = Role_model, msg_content = JStr ''Hi'',
              msg_audio = None, msg_voice = Some ''aura-asteria-en'' \<rparr>],
         ids_drawn := Suc 0 \<rparr>)"
    by (simp add: handle_response_def response_text_step_def response_audio_step_def
        completion_step_def c t
        append_response_text_def ensureIncomingMessage_def updateIncomingMessage_def
        finalizeIncomingMessage_def initial_state_def example_environment_def Let_def)
  have h2: "handle_response example_runtime example_environment ?r2
      (initial_state
       \<lparr> currentSpeaker := Some user_waiting,
         chatMessages :=
           [\<lparr> msg_id = ''i'', msg_role = Role_model, msg_content = JStr ''Hi'',
              msg_audio = None, msg_voice = Some ''aura-asteria-en'' \<rparr>],
         ids_drawn := Suc 0 \<rparr>) =
     Done (initial_state
       \<lparr> currentSpeaker := Some model,
         chatMessages :=
           [\<lparr> msg_id = ''i'', msg_role = Role_model, msg_content = JStr ''Hi'',
              msg_audio = None, msg_voice = Some ''aura-asteria-en'' \<rparr>,
            \<lparr> msg_id = ''ii'', msg_role = Role_model, msg_content = JStr ''there'',
              msg_audio = None, msg_voice = Some ''aura-asteria-en'' \<rparr>],
         incomingMessageRef :=
           Some \<lparr> msg_id = ''ii'', msg_role = Role_model, msg_content = JStr ''there'',
                  msg_audio = None, msg_voice = Some ''aura-asteria-en'' \<rparr>,
         ids_drawn := 2 \<rparr>)"
    by (simp add: handle_response_def response_text_step_def response_audio_step_def
        completion_step_def c t
        append_response_text_def ensureIncomingMessage_def updateIncomingMessage_def
        initial_state_def example_environment_def Let_def eval_nat_numeral)
  have "handleAgentResponse example_runtime example_environment ?p initial_state =
     Done (initial_state
       \<lparr> currentSpeaker := Some model,
         chatMessages :=
           [\<lparr> msg_id = ''i'', msg_role = Role_model, msg_content = JStr ''Hi'',
              msg_audio = None, msg_voice = Some ''aura-asteria-en'' \<rparr>,
            \<lparr> msg_id = ''ii'', msg_role = Role_model, msg_content = JStr ''there'',
              msg_audio = None, msg_voice = Some ''aura-asteria-en'' \<rparr>],
         incomingMessageRef :=
           Some \<lparr> msg_id = ''ii'', msg_role = Role_model, msg_content = JStr ''there'',
                  msg_audio = None, msg_voice = Some ''aura-asteria-en'' \<rparr>,
         ids_drawn := 2 \<rparr>)"
    by (simp add: handleAgentResponse_def Let_def rs h1 h2 c completion_step_def)
  with ev c(1) show ?thesis by simp
qed

text \<open>
  A conversion that throws ends the sequence where it occurs. The status of the first
  sub-object below is an object with an own property \<^verbatim>\<open>toString\<close>: its text is
  appended, then \<^verbatim>\<open>String(status)\<close> throws in the completion check, and the second
  sub-object is not handled.
\<close>

lemma agent_response_interrupted:
  "classify_agent_response example_runtime
     (JObj [(''type'', JStr ''agent-response''),
            (''responses'',
               JArr [JObj [(''type'', JStr ''text''), (''text'', JStr ''Hi''),
                           (''status'', JObj [(''toString'', JNum 1)])],
                     JObj [(''type'', JStr ''text''), (''text'', JStr ''there'')]])]) =
     Interrupted [ResponseTextDelta (JStr ''Hi'')] \<and>
   handleAgentResponse example_runtime example_environment
     (JObj [(''type'', JStr ''agent-response''),
            (''responses'',
               JArr [JObj [(''type'', JStr ''text''), (''text'', JStr ''Hi''),
                           (''status'', JObj [(''toString'', JNum 1)])],
                     JObj [(''type'', JStr ''text''), (''text'', JStr ''there'')]])])
     initial_state =
     Threw (initial_state
       \<lparr> currentSpeaker := Some model,
         chatMessages :=
           [\<lparr> msg_id = ''i'', msg_role = Role_model, msg_content = JStr ''Hi'',
              msg_audio = None, msg_voice = Some ''aura-asteria-en'' \<rparr>],
         incomingMessageRef :=
           Some \<lparr> msg_id = ''i'', msg_role = Role_model, msg_content = JStr ''Hi'',
                  msg_audio = None, msg_voice = Some ''aura-asteria-en'' \<rparr>,
         ids_drawn := 1 \<rparr>)"
proof -
  let ?r1 = "JObj [(''type'', JStr ''text''), (''text'', JStr ''Hi''),
                   (''status'', JObj [(''toString'', JNum 1)])]"
  let ?r2 = "JObj [(''type'', JStr ''text''), (''text'', JStr ''there'')]"
  let ?p = "JObj [(''type'', JStr ''agent-response''), (''responses'', JArr [?r1, ?r2])]"
  have rs: "extractResponses ?p = [?r1, ?r2]"
    by (simp add: extractResponses_def)
  have c: "responseIsComplete example_runtime ?r1 = Throws"
    by (simp add: responseIsComplete_def has_own_def)
  have t: "responseType example_runtime ?r1 = Returns ''text''"
    "textFromResponse example_runtime ?r1 = Returns (JStr ''Hi'')"
    "audioFromResponse example_runtime ?r1 = Returns JNull"
    by (simp_all add: responseType_def coalesce_def nullish_def
        lower_text textFromResponse_def audioFromResponse_def audio_slot_def oget_def)
  have ev: "classify_agent_response example_runtime ?p =
     Interrupted [ResponseTextDelta (JStr ''Hi'')]"
    by (simp add: classify_agent_response_def classify_response_def text_events_def
        audio_events_def completion_events_def rs c t)
  have h1: "handle_response example_runtime example_environment ?r1 initial_state =
      Threw (initial_state
       \<lparr> currentSpeaker := Some model,
         chatMessages :=
           [\<lparr> msg_id = ''i'', msg_role = Role_model, msg_content = JStr ''Hi'',
              msg_audio = None, msg_voice = Some ''aura-asteria-en'' \<rparr>],
         incomingMessageRef :=
           Some \<lparr> msg_id = ''i'', msg_role = Role_model, msg_content = JStr ''Hi'',
                  msg_audio = None, msg_voice = Some ''aura-asteria-en'' \<rparr>,
         ids_drawn := 1 \<rparr>)"
    by (simp add: handle_response_def response_text_step_def response_audio_step_def
        completion_step_def c t
        append_response_text_def ensureIncomingMessage_def updateIncomingMessage_def
        initial_state_def example_environment_def Let_def)
  have "handleAgentResponse example_runtime example_environment ?p initial_state =
      Threw (initial_state
       \<lparr> currentSpeaker := Some model,
         chatMessages :=
           [\<lparr> msg_id = ''i'', msg_role = Role_model, msg_content = JStr ''Hi'',
              msg_audio = None, msg_voice = Some ''aura-asteria-en'' \<rparr>],
         incomingMessageRef :=
           Some \<lparr> msg_id = ''i'', msg_role = Role_model, msg_content = JStr ''Hi'',
                  msg_audio = None, msg_voice = Some ''aura-asteria-en'' \<rparr>,
         ids_drawn := 1 \<rparr>)"
    by (simp add: handleAgentResponse_def Let_def rs h1)
  with ev show ?thesis by simp
qed

text \<open>
  C7, on the code at a failing input. The text deltas \<^verbatim>\<open>Hi\<close> and
  \<^verbatim>\<open>there  friend\<close> (two spaces inside) arrive in two \<^verbatim>\<open>agent-response\<close> payloads
  for one open model message: its content is then \<^verbatim>\<open>Hi there  friend\<close>, with the run of
  two spaces still inside, because \<^verbatim>\<open>handleAgentResponse\<close> only trims the joined text.
  The same two deltas in two transcript payloads of the model give
  \<^verbatim>\<open>Hi there friend\<close>: \<^verbatim>\<open>handleTranscriptMessage\<close> collapses the whitespace runs of
  the joined text before it trims.
\<close>

theorem agent_response_text_keeps_whitespace_runs:
  "incomingMessageRef
     (state_of (handleAgentResponse example_runtime example_environment
        (JObj [(''type'', JStr ''agent-response''),
               (''response'', JObj [(''type'', JStr ''text''),
                                    (''text'', JStr ''there  friend'')])])
        (state_of (handleAgentResponse example_runtime example_environment
           (JObj [(''type'', JStr ''agent-response''),
                  (''response'', JObj [(''type'', JStr ''text''), (''text'', JStr ''Hi'')])])
           initial_state)))) =
     Some \<lparr> msg_id = ''i'', msg_role = Role_model, msg_content = JStr ''Hi there  friend'',
            msg_audio = None, msg_voice = Some ''aura-asteria-en'' \<rparr> \<and>
   incomingMessageRef
     (state_of (handleTranscriptMessage example_runtime example_environment
        (JObj [(''type'', JStr ''transcript''), (''speaker'', JStr ''assistant''),
               (''transcript'', JStr ''there  friend'')])
        (state_of (handleTranscriptMessage example_runtime example_environment
           (JObj [(''type'', JStr ''transcript''), (''speaker'', JStr ''assistant''),
                  (''transcript'', JStr ''Hi'')])
           initial_state)))) =
     Some \<lparr> msg_id = ''i'', msg_role = Role_model, msg_content = JStr ''Hi there friend'',
            msg_audio = None, msg_voice = Some ''aura-asteria-en'' \<rparr>"
proof -
  let ?r1 = "JObj [(''type'', JStr ''text''), (''text'', JStr ''Hi'')]"
  let ?r2 = "JObj [(''type'', JStr ''text''), (''text'', JStr ''there  friend'')]"
  let ?p1 = "JObj [(''type'', JStr ''agent-response''), (''response'', ?r1)]"
  let ?p2 = "JObj [(''type'', JStr ''agent-response''), (''response'', ?r2)]"
  let ?t1 = "JObj [(''type'', JStr ''transcript''), (''speaker'', JStr ''assistant''),
                   (''transcript'', JStr ''Hi'')]"
  let ?t2 = "JObj [(''type'', JStr ''transcript''), (''speaker'', JStr ''assistant''),
                   (''transcript'', JStr ''there  friend'')]"
  let ?opened = "initial_state
       \<lparr> currentSpeaker := Some model,
         chatMessages :=
           [\<lparr> msg_id = ''i'', msg_role = Role_model, msg_content = JStr ''Hi'',
              msg_audio = None, msg_voice = Some ''aura-asteria-en'' \<rparr>],
         incomingMessageRef :=
           Some \<lparr> msg_id = ''i'', msg_role = Role_model, msg_content = JStr ''Hi'',
                  msg_audio = None, msg_voice = Some ''aura-asteria-en'' \<rparr>,
         ids_drawn := Suc 0 \<rparr>"
  let ?heard = "initial_state
       \<lparr> chatMessages :=
           [\<lparr> msg_id = ''i'', msg_role = Role_model, msg_content = JStr ''Hi'',
              msg_audio = None, msg_voice = Some ''aura-asteria-en'' \<rparr>],
         incomingMessageRef :=
           Some \<lparr> msg_id = ''i'', msg_role = Role_model, msg_content = JStr ''Hi'',
                  msg_audio = None, msg_voice = Some ''aura-asteria-en'' \<rparr>,
         ids_drawn := Suc 0 \<rparr>"
  have rs: "extractResponses ?p1 = [?r1]" "extractResponses ?p2 = [?r2]"
    by (simp_all add: extractResponses_def oget_def nullish_def)
  have c: "responseIsComplete example_runtime ?r1 = Returns False"
    "responseIsComplete example_runtime ?r2 = Returns False"
    "responseIsComplete example_runtime ?p1 = Returns False"
    "responseIsComplete example_runtime ?p2 = Returns False"
    by (simp_all add: responseIsComplete_def)
  have t: "responseType example_runtime ?r1 = Returns ''text''"
    "responseType example_runtime ?r2 = Returns ''text''"
    "textFromResponse example_runtime ?r1 = Returns (JStr ''Hi'')"
    "textFromResponse example_runtime ?r2 = Returns (JStr ''there  friend'')"
    "audioFromResponse example_runtime ?r1 = Returns JNull"
    "audioFromResponse example_runtime ?r2 = Returns JNull"
    by (simp_all add: responseType_def coalesce_def nullish_def
        lower_text textFromResponse_def audioFromResponse_def audio_slot_def oget_def)
  have a1: "handleAgentResponse example_runtime example_environment ?p1 initial_state =
      Done ?opened"
    by (simp add: handleAgentResponse_def handle_response_def response_text_step_def
        response_audio_step_def completion_step_def rs c t
        append_response_text_def ensureIncomingMessage_def updateIncomingMessage_def
        initial_state_def example_environment_def Let_def)
  have a2: "incomingMessageRef
      (state_of (handleAgentResponse example_runtime example_environment ?p2 ?opened)) =
      Some \<lparr> msg_id = ''i'', msg_role = Role_model, msg_content = JStr ''Hi there  friend'',
            msg_audio = None, msg_voice = Some ''aura-asteria-en'' \<rparr>"
    by (simp add: handleAgentResponse_def handle_response_def response_text_step_def
        response_audio_step_def completion_step_def rs c t
        append_response_text_def template_literal_def ensureIncomingMessage_def
        updateIncomingMessage_def initial_state_def Let_def trim_def space_chars)
  have x: "extractTranscriptText example_runtime ?t1 = Returns (JStr ''Hi'')"
    "extractTranscriptText example_runtime ?t2 = Returns (JStr ''there  friend'')"
    "parseSpeaker example_runtime ?t1 = Returns (Some model)"
    "parseSpeaker example_runtime ?t2 = Returns (Some model)"
    "isFinalTranscript example_runtime ?t1 = Returns False"
    "isFinalTranscript example_runtime ?t2 = Returns False"
    by (simp_all add: extractTranscriptText_def parseSpeaker_def isFinalTranscript_def
        alternative_confidence_def or_js_def oget_def ofirst_def nullish_def Let_def lower_text)
  have b1: "handleTranscriptMessage example_runtime example_environment ?t1 initial_state =
      Done ?heard"
    by (simp add: handleTranscriptMessage_def x coalesce_def nullish_def
        ensureIncomingMessage_def updateIncomingMessage_def initial_state_def
        example_environment_def Let_def)
  have b2: "incomingMessageRef
      (state_of (handleTranscriptMessage example_runtime example_environment ?t2 ?heard)) =
      Some \<lparr> msg_id = ''i'', msg_role = Role_model, msg_content = JStr ''Hi there friend'',
            msg_audio = None, msg_voice = Some ''aura-asteria-en'' \<rparr>"
    by (simp add: handleTranscriptMessage_def x coalesce_def nullish_def template_literal_def
        ensureIncomingMessage_def updateIncomingMessage_def initial_state_def Let_def
        trim_def space_chars)
  from a2 b2 show ?thesis by (simp only: a1 b1 state_of.simps simp_thms)
qed

end
